theory Spec2Isabelle
  imports Complex_Main "HOL-Library.Sublist"
begin

section \<open>Data model\<close>

text \<open>
  The event catalogue of \<^verbatim>\<open>src/filters.py\<close> and \<^verbatim>\<open>src/views.py\<close>.
  A queryset is the list of its rows; \<^verbatim>\<open>filter\<close> keeps the rows of a predicate and
  \<^verbatim>\<open>exclude\<close> drops them. Timestamps are absolute instants counted in microseconds,
  the resolution of Python's \<^verbatim>\<open>datetime\<close>. A geographic point is the pair of its
  \<^verbatim>\<open>x\<close> (longitude) and \<^verbatim>\<open>y\<close> (latitude); lengths are metres, taken as exact
  real numbers.
\<close>

type_synonym geo_point = "real \<times> real"

record City =
  city_id :: nat
  slug :: string
  city_point :: geo_point
  city_is_curated :: bool

text \<open>
  \<^verbatim>\<open>locations\<close> holds, for every location of the event, the id of the location's
  city (the join \<^verbatim>\<open>locations__city\<close>); \<^verbatim>\<open>point\<close> is nullable.
\<close>

record Event =
  event_id :: nat
  name :: string
  description :: string
  start_date :: int
  end_date :: int
  prices_available :: "string list"
  is_featured :: bool
  is_staff_picked :: bool
  has_location :: string
  point :: "geo_point option"
  locations :: "nat list"

type_synonym queryset = "Event list"

section \<open>EventFilter: constants\<close>

definition FREE :: string where "FREE = ''free''"
definition PRICE_10 :: string where "PRICE_10 = ''price_10''"
definition PRICE_25 :: string where "PRICE_25 = ''price_25''"
definition PRICE_50 :: string where "PRICE_50 = ''price_50''"
definition PRICE_100 :: string where "PRICE_100 = ''price_100''"
definition PRICE_100_plus :: string where "PRICE_100_plus = ''price_100_plus''"

definition PRICE_CHOICES :: "string list" where
  "PRICE_CHOICES = [FREE, PRICE_10, PRICE_25, PRICE_50, PRICE_100, PRICE_100_plus]"

definition NOW :: string where "NOW = ''now''"
definition TODAY :: string where "TODAY = ''today''"
definition TOMORROW :: string where "TOMORROW = ''tomorrow''"
definition WEEKEND :: string where "WEEKEND = ''weekend''"
definition NEXT_WEEK :: string where "NEXT_WEEK = ''next-week''"
definition NEXT_WEEKEND :: string where "NEXT_WEEKEND = ''next-weekend''"
definition THIS_WEEK :: string where "THIS_WEEK = ''this-week''"
definition HAPPENING_LATER :: string where "HAPPENING_LATER = ''happening-later''"
definition PAST_EVENTS :: string where "PAST_EVENTS = ''past''"

definition WHEN_CHOICES :: "string list" where
  "WHEN_CHOICES = [NOW, TODAY, TOMORROW, THIS_WEEK, WEEKEND, NEXT_WEEK, NEXT_WEEKEND,
                   HAPPENING_LATER, PAST_EVENTS]"

definition FIVE_MILE :: string where "FIVE_MILE = ''mile-5''"
definition TWENTY_FIVE_MILE :: string where "TWENTY_FIVE_MILE = ''mile-25''"
definition FIFTY_MILE :: string where "FIFTY_MILE = ''mile-50''"
definition HUNDRED_MILE :: string where "HUNDRED_MILE = ''mile-100''"
definition HUNDRED_PLUS_MILE :: string where "HUNDRED_PLUS_MILE = ''mile-100-plus''"
definition ONE_HUNDRED_FIFTY_MILE :: string where "ONE_HUNDRED_FIFTY_MILE = ''mile-150''"
definition TWO_HUNDRED_MILE :: string where "TWO_HUNDRED_MILE = ''mile-200''"
definition TWO_HUNDRED_FIFTY_MILE :: string where "TWO_HUNDRED_FIFTY_MILE = ''mile-250''"
definition THREE_HUNDRED_MILE :: string where "THREE_HUNDRED_MILE = ''mile-300''"
definition THREE_HUNDRED_FIFTY_MILE :: string where "THREE_HUNDRED_FIFTY_MILE = ''mile-350''"


lemmas price_defs = FREE_def PRICE_10_def PRICE_25_def PRICE_50_def PRICE_100_def
  PRICE_100_plus_def

lemmas when_defs = NOW_def TODAY_def TOMORROW_def WEEKEND_def NEXT_WEEK_def NEXT_WEEKEND_def
  THIS_WEEK_def HAPPENING_LATER_def PAST_EVENTS_def

lemmas radius_defs = FIVE_MILE_def TWENTY_FIVE_MILE_def FIFTY_MILE_def HUNDRED_MILE_def
  HUNDRED_PLUS_MILE_def ONE_HUNDRED_FIFTY_MILE_def TWO_HUNDRED_MILE_def
  TWO_HUNDRED_FIFTY_MILE_def THREE_HUNDRED_MILE_def THREE_HUNDRED_FIFTY_MILE_def

section \<open>EventFilter: price\<close>

text \<open>\<^verbatim>\<open>prices_available__contains=[value]\<close>: the array holds the tag.\<close>

definition has_price :: "string \<Rightarrow> Event \<Rightarrow> bool" where
  "has_price tag e = (tag \<in> set (prices_available e))"

definition filter_price :: "queryset \<Rightarrow> string \<Rightarrow> queryset" where
  "filter_price queryset v = filter (has_price v) queryset"

definition filter_price_sections :: "queryset \<Rightarrow> string \<Rightarrow> queryset" where
  "filter_price_sections queryset0 v =
     (let queryset = filter (has_price v) queryset0 in
      if v = PRICE_10 then
        filter (\<lambda>e. \<not> has_price FREE e) queryset
      else if v = PRICE_25 then
        filter (\<lambda>e. \<not> (has_price FREE e \<or> has_price PRICE_10 e)) queryset
      else if v = PRICE_50 then
        filter (\<lambda>e. \<not> (has_price FREE e \<or> has_price PRICE_10 e \<or> has_price PRICE_25 e)) queryset
      else if v = PRICE_100 then
        filter (\<lambda>e. \<not> (has_price FREE e \<or> has_price PRICE_10 e \<or> has_price PRICE_25 e
                        \<or> has_price PRICE_50 e)) queryset
      else if v = PRICE_100_plus then
        filter (\<lambda>e. \<not> (has_price FREE e \<or> has_price PRICE_10 e \<or> has_price PRICE_25 e
                        \<or> has_price PRICE_50 e \<or> has_price PRICE_100 e)) queryset
      else queryset)"

section \<open>EventFilter: curation and location\<close>

text \<open>
  \<^verbatim>\<open>filter_has_location\<close> serves both the \<^verbatim>\<open>is_curated\<close> and the
  \<^verbatim>\<open>has_location\<close> parameter; \<open>fname\<close> is the filter's name and \<open>v\<close> its boolean
  value. \<open>YES\<close> is the constant \<^verbatim>\<open>Event.YES\<close> of the model class, which the
  sources at hand do not contain, so it is a parameter.
\<close>

definition filter_has_location :: "string \<Rightarrow> queryset \<Rightarrow> string \<Rightarrow> bool \<Rightarrow> queryset" where
  "filter_has_location YES queryset fname v =
     (let qs = queryset;
          qs = (if fname = ''is_curated'' then
                  (if v then filter (\<lambda>e. is_staff_picked e = v \<or> is_featured e = v) qs
                   else filter (\<lambda>e. is_staff_picked e = v) qs)
                else qs)
      in if fname = ''is_curated'' \<and> \<not> v then qs
         else if v then filter (\<lambda>e. has_location e = YES) qs
         else qs)"

section \<open>Requests, Q objects and missing collaborators\<close>

text \<open>
  A request's parameter bag (\<^verbatim>\<open>request.GET\<close>, \<^verbatim>\<open>request.query_params\<close>) is a map
  from parameter names to values. Python's truth test on such a value holds for a
  present, non-empty string.
\<close>

type_synonym params = "string \<rightharpoonup> string"

definition truthy :: "string option \<Rightarrow> bool" where
  "truthy v = (case v of None \<Rightarrow> False | Some s \<Rightarrow> s \<noteq> [])"

definition get_default :: "params \<Rightarrow> string \<Rightarrow> string \<Rightarrow> string" where
  "get_default query_params k d = (case query_params k of None \<Rightarrow> d | Some s \<Rightarrow> s)"

text \<open>
  A \<^verbatim>\<open>Q\<close> object is a predicate on events; the empty \<^verbatim>\<open>Q()\<close> is \<open>None\<close>: it is
  the unit of \<^verbatim>\<open>|=\<close>, and filtering by it keeps every row.
\<close>

type_synonym Q = "(Event \<Rightarrow> bool) option"

definition Q_or :: "Q \<Rightarrow> (Event \<Rightarrow> bool) \<Rightarrow> Q" where
  "Q_or q p = (case q of None \<Rightarrow> Some p | Some p0 \<Rightarrow> Some (\<lambda>e. p0 e \<or> p e))"

definition filter_Q :: "Q \<Rightarrow> queryset \<Rightarrow> queryset" where
  "filter_Q q qs = (case q of None \<Rightarrow> qs | Some p \<Rightarrow> filter p qs)"

text \<open>The step \<^verbatim>\<open>if c: when_filter |= p\<close>.\<close>

definition Q_or_if :: "bool \<Rightarrow> Q \<Rightarrow> (Event \<Rightarrow> bool) \<Rightarrow> Q" where
  "Q_or_if c q p = (if c then Q_or q p else q)"

definition start_range :: "int \<Rightarrow> int \<Rightarrow> Event \<Rightarrow> bool" where
  "start_range lo hi e = (lo \<le> start_date e \<and> start_date e \<le> hi)"

text \<open>
  The helpers of \<^verbatim>\<open>core.utils\<close> are imported by both source files but are not among
  them; they are parameters. The calendar helpers return their bounds before the
  conversion \<^verbatim>\<open>to_city_time\<close>, as in the source.
\<close>

record NativeCache =
  nc_url :: string
  nc_platform :: "string option"
  nc_page_type :: "string option"
  nc_tab :: "string option"
  nc_city :: "string option"
  nc_radius :: "string option"
  nc_page_no :: "string option"
  nc_query_params :: "string list"
  response :: string

record Utils =
  get_city_day_start :: "City \<Rightarrow> int"
  to_city_time :: "City \<Rightarrow> int \<Rightarrow> int"
  get_weekend :: "City \<Rightarrow> int \<times> int"
  get_next_week :: "City \<Rightarrow> int \<times> int"
  get_next_weekend :: "City \<Rightarrow> int \<times> int"
  get_this_week :: "City \<Rightarrow> int \<times> int"
  get_tampa :: "string list"
  is_refresh_cache :: "NativeCache \<Rightarrow> bool"

text \<open>
  The database: the tables in their default order (the order \<^verbatim>\<open>first()\<close> uses on a
  queryset that was not ordered), the manager method \<^verbatim>\<open>Event.objects.viewable\<close>,
  and the engine's geodesic distance in metres, full-text phrase match and trigram
  similarity.
\<close>

record Db =
  City_objects :: "City list"
  Event_objects :: "Event list"
  NativeCache_objects :: "NativeCache list"
  viewable :: "bool \<Rightarrow> Event \<Rightarrow> bool"
  distance_m :: "geo_point \<Rightarrow> geo_point \<Rightarrow> real"
  search_phrase :: "string \<Rightarrow> Event \<Rightarrow> bool"
  TrigramSimilarity :: "string \<Rightarrow> string \<Rightarrow> real"

text \<open>\<^verbatim>\<open>City.objects.get(slug=...)\<close>; \<open>None\<close> is \<^verbatim>\<open>City.DoesNotExist\<close>.\<close>

definition City_get :: "Db \<Rightarrow> string option \<Rightarrow> City option" where
  "City_get db s = (case s of None \<Rightarrow> None | Some v \<Rightarrow> find (\<lambda>c. slug c = v) (City_objects db))"

datatype error = ValueError | UnboundLocalError

section \<open>EventFilter: when\<close>

definition microsecond :: int where "microsecond = 1"
definition second :: int where "second = 1000000"

definition timedelta :: "int \<Rightarrow> int \<Rightarrow> int \<Rightarrow> int \<Rightarrow> int" where
  "timedelta days hours minutes seconds =
     (((days * 24 + hours) * 60 + minutes) * 60 + seconds) * second"

text \<open>\<^verbatim>\<open>until.replace(hour=23, minute=59, second=59)\<close>: the day and the microseconds stay.\<close>

definition replace_235959 :: "int \<Rightarrow> int" where
  "replace_235959 t = t - t mod timedelta 1 0 0 0 + timedelta 0 23 59 59 + t mod second"

definition process_since_and_until ::
  "Utils \<Rightarrow> int option \<Rightarrow> int option \<Rightarrow> City \<Rightarrow> int option \<times> int option" where
  "process_since_and_until U since until city =
     (let since = (case since of None \<Rightarrow> None | Some s \<Rightarrow> Some (to_city_time U city s));
          until = (case until of None \<Rightarrow> None
                   | Some u \<Rightarrow> Some (to_city_time U city (replace_235959 u)))
      in (since, until))"

text \<open>
  \<^verbatim>\<open>filter_when\<close>: \<open>GET\<close> is the request's parameter bag, \<open>since\<close> and \<open>until\<close> the
  form's cleaned values, \<open>utc_now\<close> the instant \<^verbatim>\<open>timezone.now()\<close> returns during the
  request, \<open>v\<close> the list of selected tokens.
\<close>

definition filter_when ::
  "Utils \<Rightarrow> Db \<Rightarrow> int \<Rightarrow> params \<Rightarrow> int option \<Rightarrow> int option \<Rightarrow> queryset \<Rightarrow> string list
     \<Rightarrow> queryset" where
  "filter_when U db utc_now GET since until queryset v =
     (let tampa_bay_slug = ''tampa-bay-florida-united-states'';
          city_slug = get_default GET ''city'' tampa_bay_slug in
      case City_get db (Some city_slug) of
        None \<Rightarrow> queryset
      | Some city \<Rightarrow>
         (let start = to_city_time U city (get_city_day_start U city);
              day_end = start + timedelta 0 23 59 59;
              when_filter = None;
              when_filter = (if NOW \<in> set v
                 then Some (\<lambda>e. start_date e \<le> utc_now \<and> end_date e \<ge> utc_now)
                 else when_filter);
              when_filter = Q_or_if (TODAY \<in> set v) when_filter (start_range start day_end);
              when_filter = Q_or_if (TOMORROW \<in> set v) when_filter
                 (start_range (start + timedelta 1 0 0 0) (day_end + timedelta 1 0 0 0));
              when_filter = Q_or_if (WEEKEND \<in> set v) when_filter
                 (case get_weekend U city of (lo, hi) \<Rightarrow>
                    start_range (to_city_time U city lo) (to_city_time U city hi));
              when_filter = Q_or_if (NEXT_WEEK \<in> set v) when_filter
                 (case get_next_week U city of (lo, hi) \<Rightarrow>
                    start_range (to_city_time U city lo) (to_city_time U city hi));
              when_filter = Q_or_if (NEXT_WEEKEND \<in> set v) when_filter
                 (case get_next_weekend U city of (lo, hi) \<Rightarrow>
                    start_range (to_city_time U city lo) (to_city_time U city hi));
              when_filter = Q_or_if (THIS_WEEK \<in> set v) when_filter
                 (case get_this_week U city of (lo, hi) \<Rightarrow>
                    start_range (to_city_time U city lo) (to_city_time U city hi));
              when_filter = Q_or_if (HAPPENING_LATER \<in> set v) when_filter
                 (case get_next_weekend U city of (lo, hi) \<Rightarrow>
                    (\<lambda>e. start_date e \<ge> to_city_time U city hi));
              when_filter = Q_or_if (PAST_EVENTS \<in> set v) when_filter
                 (\<lambda>e. end_date e \<le> utc_now);
              when_filter = (case process_since_and_until U since until city of
                   (Some s, Some u) \<Rightarrow> Q_or when_filter (start_range s u)
                 | (None, Some u) \<Rightarrow> Q_or when_filter (\<lambda>e. start_date e \<le> u)
                 | (Some s, None) \<Rightarrow> Q_or when_filter (\<lambda>e. start_date e \<ge> s)
                 | (None, None) \<Rightarrow> when_filter)
          in remdups (filter_Q when_filter queryset)))"

section \<open>EventFilter: radius\<close>

text \<open>Lines 501 to 523 of \<^verbatim>\<open>filter_radius\<close>: the token's bound in metres.\<close>

definition one_mile :: real where "one_mile = 1609"

definition radius_distance :: "string \<Rightarrow> real option" where
  "radius_distance v =
     (if v = FIVE_MILE then Some (5 * one_mile)
      else if v = TWENTY_FIVE_MILE then Some (25 * one_mile)
      else if v = FIFTY_MILE then Some (50 * one_mile)
      else if v = HUNDRED_MILE then Some (100 * one_mile)
      else if v = ONE_HUNDRED_FIFTY_MILE \<or> v = HUNDRED_PLUS_MILE then Some (150 * one_mile)
      else if v = TWO_HUNDRED_MILE then Some (200 * one_mile)
      else if v = TWO_HUNDRED_FIFTY_MILE then Some (250 * one_mile)
      else if v = THREE_HUNDRED_MILE then Some (300 * one_mile)
      else if v = THREE_HUNDRED_FIFTY_MILE then Some (350 * one_mile)
      else None)"

definition centroid :: "geo_point \<Rightarrow> geo_point \<Rightarrow> geo_point" where
  "centroid p q = ((fst p + fst q) / 2, (snd p + snd q) / 2)"

text \<open>
  The cluster siblings of a city, as the source builds them: the rows whose slug is in
  \<^verbatim>\<open>get_tampa()\<close>, without the city itself. The queryset is annotated with the
  distance but not ordered, so \<^verbatim>\<open>first()\<close> is its first row in default order.
\<close>

definition tampa_siblings :: "Utils \<Rightarrow> Db \<Rightarrow> City \<Rightarrow> City list" where
  "tampa_siblings U db city =
     filter (\<lambda>c. slug c \<noteq> slug city)
       (filter (\<lambda>c. slug c \<in> set (get_tampa U)) (City_objects db))"

text \<open>
  Lines 477 to 499: the reference point and \<^verbatim>\<open>add_miles\<close>. \<open>Inr None\<close> is the
  early \<^verbatim>\<open>return queryset.none()\<close>; \<open>to_float\<close> is Python's \<^verbatim>\<open>float\<close> on a string,
  \<open>None\<close> where it raises.
\<close>

definition radius_ref_point ::
  "Utils \<Rightarrow> Db \<Rightarrow> (string \<Rightarrow> real option) \<Rightarrow> params
     \<Rightarrow> error + (geo_point \<times> real option) option" where
  "radius_ref_point U db to_float GET =
     (let city = GET ''city''; longitude = GET ''longitude''; latitude = GET ''latitude'' in
      case City_get db city of
        None \<Rightarrow>
          (if truthy longitude \<and> truthy latitude then
             (case (to_float (the longitude), to_float (the latitude)) of
                (Some x, Some y) \<Rightarrow> Inr (Some ((x, y), None))
              | _ \<Rightarrow> Inl ValueError)
           else Inr None)
      | Some city \<Rightarrow>
          (let ref_point = city_point city in
           if slug city \<in> set (get_tampa U) then
             (case tampa_siblings U db city of
                [] \<Rightarrow> Inr (Some (ref_point, None))
              | first # _ \<Rightarrow>
                  Inr (Some (centroid (city_point first) (city_point city),
                             Some (distance_m db (city_point first) ref_point / 1.999))))
           else Inr (Some (ref_point, None))))"

text \<open>
  Lines 525 and 526: \<^verbatim>\<open>if add_miles: distance = distance + add_miles\<close>. The sum is the
  exact one; the code's sum of doubles may differ from it by a rounding.
\<close>

definition effective_distance :: "real \<Rightarrow> real option \<Rightarrow> real" where
  "effective_distance distance add_miles =
     (case add_miles of None \<Rightarrow> distance
      | Some a \<Rightarrow> if a \<noteq> 0 then distance + a else distance)"

definition dwithin :: "Db \<Rightarrow> geo_point \<Rightarrow> real \<Rightarrow> Event \<Rightarrow> bool" where
  "dwithin db ref_point d e =
     (case point e of None \<Rightarrow> False | Some p \<Rightarrow> distance_m db p ref_point \<le> d)"

definition filter_radius ::
  "Utils \<Rightarrow> Db \<Rightarrow> (string \<Rightarrow> real option) \<Rightarrow> params \<Rightarrow> queryset \<Rightarrow> string
     \<Rightarrow> error + queryset" where
  "filter_radius U db to_float GET queryset v =
     (let city = GET ''city''; longitude = GET ''longitude''; latitude = GET ''latitude'' in
      if \<not> (truthy city \<or> (truthy longitude \<and> truthy latitude)) then Inr queryset
      else
        (case radius_ref_point U db to_float GET of
           Inl err \<Rightarrow> Inl err
         | Inr None \<Rightarrow> Inr []
         | Inr (Some (ref_point, add_miles)) \<Rightarrow>
             (case radius_distance v of
                None \<Rightarrow> Inl UnboundLocalError
              | Some distance \<Rightarrow>
                  (let distance = effective_distance distance add_miles
                   in Inr (filter (dwithin db ref_point distance) queryset)))))"

section \<open>EventViewSet and MapViewSet: the curated-city resolver\<close>

text \<open>
  \<^verbatim>\<open>get_nearest_curated_city\<close> is the same method in both viewsets. \<open>None\<close> is its
  \<^verbatim>\<open>return False\<close>. \<^verbatim>\<open>D(mi=distance)\<close> is a length in miles of 1609.344 metres;
  \<^verbatim>\<open>order_by('distance')\<close> is a stable sort of the rows by their distance.
\<close>

definition mile_m :: real where "mile_m = 1609.344"

definition curated_radius :: "string option \<Rightarrow> real option" where
  "curated_radius radius =
     (if radius = Some FIVE_MILE then Some 5
      else if radius = Some TWENTY_FIVE_MILE then Some 25
      else if radius = Some FIFTY_MILE then Some 50
      else if radius = Some HUNDRED_MILE then Some 100
      else if radius = Some HUNDRED_PLUS_MILE then Some 10000
      else None)"

text \<open>The curated cities within the bound, nearest first (lines 209 to 216).\<close>

definition curated_within :: "Db \<Rightarrow> City \<Rightarrow> real \<Rightarrow> City list" where
  "curated_within db city distance =
     (let pt = city_point city;
          cities = filter (\<lambda>c. city_is_curated c
                                \<and> distance_m db (city_point c) pt \<le> distance * mile_m)
                     (City_objects db)
      in sort_key (\<lambda>c. distance_m db (city_point c) pt) cities)"

definition get_nearest_curated_city ::
  "Utils \<Rightarrow> Db \<Rightarrow> City \<Rightarrow> string option \<Rightarrow> City list option" where
  "get_nearest_curated_city U db city radius =
     (case curated_radius radius of
        None \<Rightarrow> None
      | Some distance \<Rightarrow>
          (let cities = curated_within db city distance;
               cities = (if cities = [] \<and> slug city \<in> set (get_tampa U)
                         then filter (\<lambda>c. slug c = ''tampa-bay-florida-united-states'')
                                (City_objects db)
                         else cities)
           in Some cities))"

text \<open>
  The caller's policy, the same lines in both \<^verbatim>\<open>get_queryset\<close> methods (262 to 273 in
  \<^verbatim>\<open>EventViewSet\<close>): an event is located in a city when one of its locations is.
\<close>

definition located_in :: "City list \<Rightarrow> Event \<Rightarrow> bool" where
  "located_in cs e = (\<exists>l \<in> set (locations e). l \<in> set (map city_id cs))"

definition curated_policy :: "Utils \<Rightarrow> Db \<Rightarrow> City \<Rightarrow> string option \<Rightarrow> queryset \<Rightarrow> queryset" where
  "curated_policy U db city radius qs =
     (case get_nearest_curated_city U db city radius of
        None \<Rightarrow> filter (\<lambda>e. is_staff_picked e = False) (filter (\<lambda>e. is_featured e = False) qs)
      | Some [] \<Rightarrow> filter (\<lambda>e. is_staff_picked e = False) (filter (\<lambda>e. is_featured e = False) qs)
      | Some (first # rest) \<Rightarrow>
          (let nearest_city = city_id first;
               curated_city = filter (\<lambda>c. city_id c \<noteq> nearest_city) (first # rest)
           in filter (\<lambda>e. \<not> ((is_featured e = True \<or> is_staff_picked e = True)
                               \<and> located_in curated_city e)) qs))"

section \<open>Text search\<close>

text \<open>
  \<^verbatim>\<open>istartswith\<close> and \<^verbatim>\<open>icontains\<close> compare the upper-cased strings; the case
  folding is that of the 26 ASCII letters, so the model is that of the database on
  strings without other cased letters.
\<close>

definition upper_char :: "char \<Rightarrow> char" where
  "upper_char c =
     (case map_of (zip ''abcdefghijklmnopqrstuvwxyz'' ''ABCDEFGHIJKLMNOPQRSTUVWXYZ'') c of
        None \<Rightarrow> c | Some u \<Rightarrow> u)"

definition upper :: "string \<Rightarrow> string" where
  "upper s = map upper_char s"

fun contains :: "string \<Rightarrow> string \<Rightarrow> bool" where
  "contains [] sub = (sub = [])"
| "contains (c # cs) sub = (prefix sub (c # cs) \<or> contains cs sub)"

definition istartswith :: "string \<Rightarrow> string \<Rightarrow> bool" where
  "istartswith field v = prefix (upper v) (upper field)"

definition icontains :: "string \<Rightarrow> string \<Rightarrow> bool" where
  "icontains field v = contains (upper field) (upper v)"

definition similarity :: "Db \<Rightarrow> string \<Rightarrow> Event \<Rightarrow> real" where
  "similarity db v e = max (TrigramSimilarity db (name e) v) (TrigramSimilarity db (description e) v)"

definition EventViewSet_filter_search :: "Db \<Rightarrow> params \<Rightarrow> queryset \<Rightarrow> queryset" where
  "EventViewSet_filter_search db query_params queryset =
     (let v = get_default query_params ''search'' [] in
      if length v < 3 then []
      else
        (let ft_search = filter (\<lambda>e. search_phrase db v e \<or> istartswith (name e) v) queryset in
         if ft_search \<noteq> [] then ft_search
         else
           (let name_search = filter (\<lambda>e. istartswith (name e) v) queryset in
            if name_search \<noteq> [] then name_search
            else
              (let ts_search = sort_key (\<lambda>e. - similarity db v e)
                                 (filter (\<lambda>e. similarity db v e > 0.03) queryset) in
               if ts_search \<noteq> [] then ts_search
               else filter (\<lambda>e. icontains (name e) v \<or> icontains (description e) v) queryset))))"

definition MapViewSet_filter_search :: "Db \<Rightarrow> params \<Rightarrow> queryset \<Rightarrow> queryset" where
  "MapViewSet_filter_search db query_params queryset =
     (let v = get_default query_params ''search'' [] in
      if length v < 3 then []
      else
        (let ft_search = filter (\<lambda>e. search_phrase db v e \<or> istartswith (name e) v) queryset in
         if ft_search \<noteq> [] then ft_search
         else
           (let name_search = filter (\<lambda>e. istartswith (name e) v) queryset in
            if name_search \<noteq> [] then name_search
            else filter (\<lambda>e. icontains (name e) v \<or> icontains (description e) v) queryset)))"

definition is_search :: "params \<Rightarrow> bool" where
  "is_search query_params = truthy (Some (get_default query_params ''search'' []))"

definition search_base :: "Db \<Rightarrow> params \<Rightarrow> queryset" where
  "search_base db query_params =
     (let is_past_events = query_params ''when'' in
      if truthy is_past_events \<and> is_past_events = Some PAST_EVENTS
      then filter (viewable db True) (Event_objects db)
      else filter (viewable db False) (Event_objects db))"

definition EventViewSet_search_events :: "Db \<Rightarrow> params \<Rightarrow> queryset" where
  "EventViewSet_search_events db query_params =
     remdups (EventViewSet_filter_search db query_params (search_base db query_params))"

definition MapViewSet_search_events :: "Db \<Rightarrow> params \<Rightarrow> queryset" where
  "MapViewSet_search_events db query_params =
     remdups (MapViewSet_filter_search db query_params (search_base db query_params))"

section \<open>get\_queryset\<close>

text \<open>
  In \<^verbatim>\<open>EventViewSet.get_queryset\<close> the closing \<^verbatim>\<open>order_by('start_date')\<close> replaces the
  \<^verbatim>\<open>order_by('-end_date')\<close> of the past branch, so only the closing order is applied;
  \<^verbatim>\<open>MapViewSet.get_queryset\<close> has no closing order and keeps the one of the past branch.
  Rows that the order does not separate stay in table order, where the database leaves
  their order open.
\<close>

definition EventViewSet_get_queryset :: "Utils \<Rightarrow> Db \<Rightarrow> int \<Rightarrow> params \<Rightarrow> queryset" where
  "EventViewSet_get_queryset U db utc_now query_params0 =
     (let radius = get_default query_params0 ''radius'' HUNDRED_PLUS_MILE;
          query_params = query_params0(''radius'' \<mapsto> radius) in
      if is_search query_params then EventViewSet_search_events db query_params
      else
        (let queryset = Event_objects db;
             is_past_events = query_params ''when'';
             what = query_params ''what'';
             self_queryset = filter (viewable db False) queryset;
             self_queryset =
               (if truthy is_past_events \<and> is_past_events = Some PAST_EVENTS
                then filter (viewable db True) queryset
                else self_queryset);
             city_slug = query_params ''city'';
             self_queryset =
               (if truthy city_slug then
                  (case City_get db city_slug of
                     None \<Rightarrow> self_queryset
                   | Some city \<Rightarrow>
                       if \<not> city_is_curated city
                       then curated_policy U db city (Some radius) self_queryset
                       else self_queryset)
                else self_queryset);
             self_queryset =
               (if truthy what then filter (\<lambda>e. start_date e \<ge> utc_now) queryset
                else self_queryset)
         in sort_key start_date self_queryset))"

definition MapViewSet_get_queryset :: "Utils \<Rightarrow> Db \<Rightarrow> params \<Rightarrow> queryset" where
  "MapViewSet_get_queryset U db query_params =
     (if is_search query_params then MapViewSet_search_events db query_params
      else
        (let queryset = Event_objects db;
             is_past_events = query_params ''when'';
             self_queryset = filter (viewable db False) queryset;
             self_queryset =
               (if truthy is_past_events \<and> is_past_events = Some PAST_EVENTS
                then sort_key (\<lambda>e. - end_date e) (filter (viewable db True) queryset)
                else self_queryset);
             city_slug = query_params ''city'';
             self_queryset =
               (if truthy city_slug then
                  (case City_get db city_slug of
                     None \<Rightarrow> self_queryset
                   | Some city \<Rightarrow>
                       if \<not> city_is_curated city
                       then curated_policy U db city (query_params ''radius'') self_queryset
                       else self_queryset)
                else self_queryset)
         in self_queryset))"

section \<open>The cache read path\<close>

text \<open>
  A task handed to the dispatcher by \<^verbatim>\<open>.delay(...)\<close> is appended to the queue of
  dispatched tasks; the read path never looks at the queue. The constants of the model
  classes \<^verbatim>\<open>EventBucket\<close> and \<^verbatim>\<open>Section\<close>, the paginator and the serialised live
  response belong to code outside the two source files and are parameters.
\<close>

record EventBucket =
  pk :: nat
  bucket :: string
  bucket_type :: string
  is_active :: bool
  sort_order :: int

record Consts =
  EventBucket_WHEN :: string
  EventBucket_HAPPENING_LATER :: string
  Section_DESKTOP :: string
  Section_CITY_PAGE :: string
  Section_DATE_TAB :: string
  page_size_default :: string

datatype Task =
    cache_date_tab_city_page "nat list" "nat list" "string option" string string "string option"
  | cache_top_tab_city_page string "string option" "string option" "string option"
      "string option" "string option"

datatype Response = Response string | Paginated "nat list" | Serialized "nat list" | Live

definition lower_char :: "char \<Rightarrow> char" where
  "lower_char c =
     (case map_of (zip ''ABCDEFGHIJKLMNOPQRSTUVWXYZ'' ''abcdefghijklmnopqrstuvwxyz'') c of
        None \<Rightarrow> c | Some u \<Rightarrow> u)"

text \<open>The buckets of the when tab (lines 505 to 514 of \<^verbatim>\<open>when_paginated\<close>).\<close>

definition when_buckets :: "Consts \<Rightarrow> EventBucket list \<Rightarrow> params \<Rightarrow> EventBucket list" where
  "when_buckets K EventBucket_objects query_params =
     (let event_bucket = sort_key sort_order
            (filter (\<lambda>b. bucket_type b = EventBucket_WHEN K \<and> is_active b) EventBucket_objects);
          registered_user = get_default query_params ''registered_user'' ''false''
      in if map lower_char registered_user = ''true''
         then filter (\<lambda>b. bucket b \<noteq> EventBucket_HAPPENING_LATER K) event_bucket
         else event_bucket)"

text \<open>The cache rows of a request's key, \<^verbatim>\<open>NativeCache.objects.filter(...)\<close>.\<close>

definition when_paginated_cache :: "Db \<Rightarrow> Consts \<Rightarrow> params \<Rightarrow> NativeCache list" where
  "when_paginated_cache db K query_params =
     (let city = query_params ''city'';
          radius = query_params ''radius'';
          page_no = get_default query_params ''page'' ''1'';
          page_size = get_default query_params ''page_size'' (page_size_default K)
      in filter (\<lambda>c. nc_url c = ''/v2/events/when_paginated/''
                    \<and> nc_platform c = Some (Section_DESKTOP K)
                    \<and> nc_page_type c = Some (Section_CITY_PAGE K)
                    \<and> nc_tab c = Some (Section_DATE_TAB K)
                    \<and> nc_city c = city
                    \<and> nc_radius c = radius
                    \<and> nc_page_no c = Some page_no
                    \<and> nc_query_params c = [page_size]) (NativeCache_objects db))"

definition when_paginated_task :: "Consts \<Rightarrow> EventBucket list \<Rightarrow> EventBucket list \<Rightarrow> params \<Rightarrow> Task" where
  "when_paginated_task K event_bucket page query_params =
     cache_date_tab_city_page (map pk event_bucket) (map pk page) (query_params ''city'')
       (get_default query_params ''page'' ''1'')
       (get_default query_params ''page_size'' (page_size_default K))
       (query_params ''radius'')"

definition when_paginated ::
  "Utils \<Rightarrow> Db \<Rightarrow> Consts \<Rightarrow> EventBucket list \<Rightarrow> (EventBucket list \<Rightarrow> EventBucket list option)
     \<Rightarrow> params \<Rightarrow> Task list \<Rightarrow> Response \<times> Task list" where
  "when_paginated U db K EventBucket_objects paginate_queryset query_params queue =
     (let event_bucket = when_buckets K EventBucket_objects query_params
      in case paginate_queryset event_bucket of
           None \<Rightarrow> (Serialized (map pk event_bucket), queue)
         | Some page \<Rightarrow>
             (case when_paginated_cache db K query_params of
                cache # _ \<Rightarrow>
                  (if is_refresh_cache U cache
                   then (Response (NativeCache.response cache),
                         queue @ [when_paginated_task K event_bucket page query_params])
                   else (Response (NativeCache.response cache), queue))
              | [] \<Rightarrow>
                  (Paginated (map pk page),
                   queue @ [when_paginated_task K event_bucket page query_params])))"

definition desktop_cache :: "Db \<Rightarrow> params \<Rightarrow> NativeCache list" where
  "desktop_cache db query_params =
     filter (\<lambda>c. nc_url c = ''/v2/sections/desktop/''
                \<and> nc_platform c = query_params ''platform''
                \<and> nc_page_type c = query_params ''page_type''
                \<and> nc_tab c = query_params ''tab''
                \<and> nc_city c = query_params ''city''
                \<and> nc_radius c = query_params ''radius'') (NativeCache_objects db)"

definition desktop_task :: "params \<Rightarrow> Task" where
  "desktop_task query_params =
     cache_top_tab_city_page ''/v2/sections/desktop/'' (query_params ''platform'')
       (query_params ''page_type'') (query_params ''tab'') (query_params ''city'')
       (query_params ''radius'')"

definition desktop :: "Utils \<Rightarrow> Db \<Rightarrow> params \<Rightarrow> Task list \<Rightarrow> Response \<times> Task list" where
  "desktop U db query_params queue =
     (let cache_refresh = query_params ''cache_refresh''
      in if \<not> truthy cache_refresh then
           (case desktop_cache db query_params of
              cache # _ \<Rightarrow>
                (if \<not> is_refresh_cache U cache then (Response (NativeCache.response cache), queue)
                 else (Response (NativeCache.response cache), queue @ [desktop_task query_params]))
            | [] \<Rightarrow> (Live, queue))
         else (Live, queue))"

text \<open>A run of requests against one state of the cache table, oldest first.\<close>

fun desktop_requests :: "Utils \<Rightarrow> Db \<Rightarrow> params list \<Rightarrow> Task list \<Rightarrow> Response list \<times> Task list" where
  "desktop_requests U db [] queue = ([], queue)"
| "desktop_requests U db (r # rs) queue =
     (case desktop U db r queue of
        (resp, queue') \<Rightarrow>
          (case desktop_requests U db rs queue' of
             (resps, queue'') \<Rightarrow> (resp # resps, queue'')))"

fun when_paginated_requests ::
  "Utils \<Rightarrow> Db \<Rightarrow> Consts \<Rightarrow> EventBucket list \<Rightarrow> (EventBucket list \<Rightarrow> EventBucket list option)
     \<Rightarrow> params list \<Rightarrow> Task list \<Rightarrow> Response list \<times> Task list" where
  "when_paginated_requests U db K buckets paginate_queryset [] queue = ([], queue)"
| "when_paginated_requests U db K buckets paginate_queryset (r # rs) queue =
     (case when_paginated U db K buckets paginate_queryset r queue of
        (resp, queue') \<Rightarrow>
          (case when_paginated_requests U db K buckets paginate_queryset rs queue' of
             (resps, queue'') \<Rightarrow> (resp # resps, queue'')))"

section \<open>The specification's predicates\<close>

text \<open>
  The definitions of this section follow the words of the specification, not the code;
  the theorems below compare the code with them.
\<close>

text \<open>The tiers strictly below a tier, in the order of \<^verbatim>\<open>PRICE_CHOICES\<close>.\<close>

definition tiers_below :: "string \<Rightarrow> string list" where
  "tiers_below v = takeWhile (\<lambda>t. t \<noteq> v) PRICE_CHOICES"

text \<open>
  The predicate of one \<^verbatim>\<open>when\<close> token: the start of the city's local day and the
  precomputed windows, converted to absolute time.
\<close>

definition day_start :: "Utils \<Rightarrow> City \<Rightarrow> int" where
  "day_start U city = to_city_time U city (get_city_day_start U city)"

definition window_of :: "Utils \<Rightarrow> City \<Rightarrow> int \<times> int \<Rightarrow> int \<times> int" where
  "window_of U city w = (to_city_time U city (fst w), to_city_time U city (snd w))"

definition token_matches :: "Utils \<Rightarrow> City \<Rightarrow> int \<Rightarrow> string \<Rightarrow> Event \<Rightarrow> bool" where
  "token_matches U city utc_now tok e =
     (if tok = NOW then start_date e \<le> utc_now \<and> utc_now \<le> end_date e
      else if tok = TODAY then
        day_start U city \<le> start_date e \<and> start_date e \<le> day_start U city + 86399 * second
      else if tok = TOMORROW then
        day_start U city + 86400 * second \<le> start_date e
        \<and> start_date e \<le> day_start U city + 86400 * second + 86399 * second
      else if tok = WEEKEND then
        fst (window_of U city (get_weekend U city)) \<le> start_date e
        \<and> start_date e \<le> snd (window_of U city (get_weekend U city))
      else if tok = NEXT_WEEK then
        fst (window_of U city (get_next_week U city)) \<le> start_date e
        \<and> start_date e \<le> snd (window_of U city (get_next_week U city))
      else if tok = NEXT_WEEKEND then
        fst (window_of U city (get_next_weekend U city)) \<le> start_date e
        \<and> start_date e \<le> snd (window_of U city (get_next_weekend U city))
      else if tok = THIS_WEEK then
        fst (window_of U city (get_this_week U city)) \<le> start_date e
        \<and> start_date e \<le> snd (window_of U city (get_this_week U city))
      else if tok = HAPPENING_LATER then
        snd (window_of U city (get_next_weekend U city)) \<le> start_date e
      else if tok = PAST_EVENTS then end_date e \<le> utc_now
      else False)"

text \<open>The explicit range: from \<^verbatim>\<open>since\<close>, up to the last second of the day of \<^verbatim>\<open>until\<close>.\<close>

definition since_until_matches :: "Utils \<Rightarrow> City \<Rightarrow> int option \<Rightarrow> int option \<Rightarrow> Event \<Rightarrow> bool" where
  "since_until_matches U city since until e =
     ((since \<noteq> None \<or> until \<noteq> None)
      \<and> (case since of None \<Rightarrow> True | Some s \<Rightarrow> to_city_time U city s \<le> start_date e)
      \<and> (case until of None \<Rightarrow> True
          | Some u \<Rightarrow> start_date e \<le> to_city_time U city (replace_235959 u)))"

definition Q_holds :: "Q \<Rightarrow> Event \<Rightarrow> bool" where
  "Q_holds q e = (case q of None \<Rightarrow> False | Some p \<Rightarrow> p e)"

text \<open>The events a request sees before the curation policy: the viewable ones.\<close>

definition viewable_events :: "Db \<Rightarrow> params \<Rightarrow> Event set" where
  "viewable_events db query_params =
     {e \<in> set (Event_objects db). viewable db (query_params ''when'' = Some PAST_EVENTS) e}"

text \<open>An exclusively-curated event: featured or staff-picked.\<close>

definition exclusive :: "Event \<Rightarrow> bool" where
  "exclusive e = (is_featured e \<or> is_staff_picked e)"


text \<open>The radius tokens the curated-city resolver knows.\<close>

definition resolver_tokens :: "string list" where
  "resolver_tokens = [FIVE_MILE, TWENTY_FIVE_MILE, FIFTY_MILE, HUNDRED_MILE, HUNDRED_PLUS_MILE]"

section \<open>Sample data\<close>

definition sample_utils :: Utils where
  "sample_utils = \<lparr>
     get_city_day_start = (\<lambda>c. 0),
     to_city_time = (\<lambda>c t. t),
     get_weekend = (\<lambda>c. (5 * 86400 * second, 7 * 86400 * second - second)),
     get_next_week = (\<lambda>c. (7 * 86400 * second, 14 * 86400 * second - second)),
     get_next_weekend = (\<lambda>c. (12 * 86400 * second, 14 * 86400 * second - second)),
     get_this_week = (\<lambda>c. (0, 7 * 86400 * second - second)),
     get_tampa = [''tampa-bay-florida-united-states'', ''st-petersburg-florida-united-states'',
                  ''clearwater-florida-united-states''],
     is_refresh_cache = (\<lambda>c. True) \<rparr>"

definition austin :: City where
  "austin = \<lparr>city_id = 1, slug = ''austin-texas'', city_point = (0, 0), city_is_curated = False\<rparr>"

definition dallas :: City where
  "dallas = \<lparr>city_id = 2, slug = ''dallas-texas'', city_point = (10000, 0), city_is_curated = True\<rparr>"

definition houston :: City where
  "houston = \<lparr>city_id = 3, slug = ''houston-texas'', city_point = (20000, 0), city_is_curated = True\<rparr>"

definition tampa :: City where
  "tampa = \<lparr>city_id = 4, slug = ''tampa-bay-florida-united-states'', city_point = (1000000, 0),
             city_is_curated = True\<rparr>"

definition clearwater :: City where
  "clearwater = \<lparr>city_id = 5, slug = ''clearwater-florida-united-states'',
                  city_point = (1020000, 0), city_is_curated = False\<rparr>"

definition st_petersburg :: City where
  "st_petersburg = \<lparr>city_id = 6, slug = ''st-petersburg-florida-united-states'',
                     city_point = (1030000, 0), city_is_curated = False\<rparr>"

definition sample_event :: Event where
  "sample_event = \<lparr>event_id = 1, name = ''Farmers market'', description = ''Local produce'',
     start_date = 3600 * second, end_date = 7200 * second, prices_available = [''free''],
     is_featured = False, is_staff_picked = False, has_location = ''no'', point = Some (500, 0),
     locations = [1]\<rparr>"

definition featured_dallas :: Event where
  "featured_dallas = sample_event\<lparr>event_id := 2, name := ''Jazz night'',
     start_date := 2 * 3600 * second, is_featured := True, locations := [2]\<rparr>"

definition featured_houston :: Event where
  "featured_houston = sample_event\<lparr>event_id := 3, name := ''Rodeo'',
     start_date := 3 * 3600 * second, is_featured := True, locations := [3]\<rparr>"

definition picked_austin :: Event where
  "picked_austin = sample_event\<lparr>event_id := 4, name := ''Jaz festival'',
     start_date := 4 * 3600 * second, is_staff_picked := True, locations := [1]\<rparr>"

definition sample_cache :: NativeCache where
  "sample_cache = \<lparr>nc_url = ''/v2/sections/desktop/'', nc_platform = None, nc_page_type = None,
     nc_tab = None, nc_city = Some ''austin-texas'', nc_radius = None, nc_page_no = None,
     nc_query_params = [], response = ''stored payload''\<rparr>"

definition sample_consts :: Consts where
  "sample_consts = \<lparr>EventBucket_WHEN = ''when'', EventBucket_HAPPENING_LATER = ''happening-later'',
     Section_DESKTOP = ''desktop'', Section_CITY_PAGE = ''city_page'', Section_DATE_TAB = ''date'',
     page_size_default = ''10''\<rparr>"

definition sample_bucket :: EventBucket where
  "sample_bucket = \<lparr>pk = 1, bucket = ''today'', bucket_type = ''when'', is_active = True,
     sort_order = 1\<rparr>"

definition sample_when_cache :: NativeCache where
  "sample_when_cache = \<lparr>nc_url = ''/v2/events/when_paginated/'', nc_platform = Some ''desktop'',
     nc_page_type = Some ''city_page'', nc_tab = Some ''date'', nc_city = Some ''austin-texas'',
     nc_radius = None, nc_page_no = Some ''1'', nc_query_params = [''10''],
     response = ''stored buckets''\<rparr>"

definition sample_db :: Db where
  "sample_db = \<lparr>
     City_objects = [austin, dallas, houston, tampa, clearwater, st_petersburg],
     Event_objects = [sample_event, featured_dallas, featured_houston, picked_austin],
     NativeCache_objects = [sample_cache, sample_when_cache],
     viewable = (\<lambda>past e. True),
     distance_m = (\<lambda>p q. \<bar>fst p - fst q\<bar> + \<bar>snd p - snd q\<bar>),
     search_phrase = (\<lambda>v e. False),
     TrigramSimilarity = (\<lambda>field v. if take 3 (upper field) = take 3 (upper v) then 1 / 2 else 0) \<rparr>"

lemmas sample_defs = sample_utils_def austin_def dallas_def houston_def tampa_def clearwater_def
  st_petersburg_def sample_event_def featured_dallas_def featured_houston_def picked_austin_def
  sample_cache_def sample_db_def

section \<open>Price tiers\<close>

lemma price_cases:
  "v \<in> set PRICE_CHOICES \<Longrightarrow>
     v = FREE \<or> v = PRICE_10 \<or> v = PRICE_25 \<or> v = PRICE_50 \<or> v = PRICE_100 \<or> v = PRICE_100_plus"
  by (auto simp: PRICE_CHOICES_def)

lemma filter_price_iff:
  "e \<in> set (filter_price qs v) \<longleftrightarrow> e \<in> set qs \<and> v \<in> set (prices_available e)"
  by (simp add: filter_price_def has_price_def)

lemma sections_below:
  assumes "v \<in> set PRICE_CHOICES"
  shows "e \<in> set (filter_price_sections qs v) \<longleftrightarrow>
       e \<in> set (filter_price qs v) \<and> (\<forall>u \<in> set (tiers_below v). u \<notin> set (prices_available e))"
  using price_cases[OF assms]
  by (elim disjE)
     (simp_all add: tiers_below_def PRICE_CHOICES_def filter_price_sections_def filter_price_def
        has_price_def price_defs)

lemma sections_single:
  assumes "v \<in> set PRICE_CHOICES" "t \<in> set PRICE_CHOICES" "prices_available e = [t]"
  shows "e \<in> set (filter_price_sections qs v) \<longleftrightarrow> e \<in> set qs \<and> v = t"
  using price_cases[OF assms(1)] price_cases[OF assms(2)] assms(3)
  by (elim disjE)
     (simp_all add: filter_price_sections_def has_price_def price_defs)

text \<open>
  Claim C4. The plain price filter keeps exactly the events whose price tags contain the
  requested tier. The sections filter keeps, of those, the events tagged with no tier
  strictly below the requested one. For an event tagged with exactly one of the six
  tiers, the sections filter of a tier keeps it exactly when the tier is its own: the six
  buckets are pairwise exclusive and together exhaustive.
\<close>

theorem price_sections_partition:
  "(e \<in> set (filter_price qs v) \<longleftrightarrow> e \<in> set qs \<and> v \<in> set (prices_available e))
   \<and> (v \<in> set PRICE_CHOICES \<longrightarrow>
        (e \<in> set (filter_price_sections qs v) \<longleftrightarrow>
           e \<in> set (filter_price qs v)
           \<and> (\<forall>u \<in> set (tiers_below v). u \<notin> set (prices_available e))))
   \<and> (v \<in> set PRICE_CHOICES \<and> t \<in> set PRICE_CHOICES \<and> prices_available e = [t] \<longrightarrow>
        (e \<in> set (filter_price_sections qs v) \<longleftrightarrow> e \<in> set qs \<and> v = t))"
  using filter_price_iff sections_below sections_single by blast

theorem price_sections_partition_witness:
  "PRICE_25 \<in> set PRICE_CHOICES \<and> PRICE_50 \<in> set PRICE_CHOICES
   \<and> prices_available (sample_event\<lparr>prices_available := [PRICE_25]\<rparr>) = [PRICE_25]
   \<and> tiers_below PRICE_25 = [FREE, PRICE_10]
   \<and> sample_event\<lparr>prices_available := [PRICE_25]\<rparr>
        \<in> set (filter_price_sections [sample_event\<lparr>prices_available := [PRICE_25]\<rparr>] PRICE_25)
   \<and> sample_event\<lparr>prices_available := [PRICE_25]\<rparr>
        \<notin> set (filter_price_sections [sample_event\<lparr>prices_available := [PRICE_25]\<rparr>] PRICE_50)"
proof -
  let ?e = "sample_event\<lparr>prices_available := [PRICE_25]\<rparr>"
  have h1: "PRICE_25 \<in> set PRICE_CHOICES" and h2: "PRICE_50 \<in> set PRICE_CHOICES"
    by (simp_all add: PRICE_CHOICES_def)
  have h3: "prices_available ?e = [PRICE_25]" by simp
  have ne: "PRICE_50 \<noteq> PRICE_25" by (simp add: price_defs)
  have tb: "tiers_below PRICE_25 = [FREE, PRICE_10]"
    by (simp add: tiers_below_def PRICE_CHOICES_def price_defs)
  have "PRICE_25 \<in> set PRICE_CHOICES \<and> PRICE_25 \<in> set PRICE_CHOICES
         \<and> prices_available ?e = [PRICE_25] \<longrightarrow>
        (?e \<in> set (filter_price_sections [?e] PRICE_25) \<longleftrightarrow> ?e \<in> set [?e] \<and> PRICE_25 = PRICE_25)"
    using price_sections_partition[of ?e "[?e]" PRICE_25 PRICE_25] by blast
  with h1 h3 have a: "?e \<in> set (filter_price_sections [?e] PRICE_25)" by simp
  have "PRICE_50 \<in> set PRICE_CHOICES \<and> PRICE_25 \<in> set PRICE_CHOICES
         \<and> prices_available ?e = [PRICE_25] \<longrightarrow>
        (?e \<in> set (filter_price_sections [?e] PRICE_50) \<longleftrightarrow> ?e \<in> set [?e] \<and> PRICE_50 = PRICE_25)"
    using price_sections_partition[of ?e "[?e]" PRICE_50 PRICE_25] by blast
  with h1 h2 h3 ne have b: "?e \<notin> set (filter_price_sections [?e] PRICE_50)" by simp
  from h1 h2 h3 tb a b show ?thesis by blast
qed

section \<open>Curation and location\<close>

text \<open>
  Claim C5, as stated, fails: the filter for \<^verbatim>\<open>is_curated=true\<close> does not stop at the
  test for staff-picked or featured; it goes on to the location test. A featured event
  without the location flag is dropped.
\<close>

theorem is_curated_true_counterexample:
  "is_featured featured_dallas
   \<and> featured_dallas \<notin> set (filter_has_location ''yes'' [featured_dallas] ''is_curated'' True)"
  by (simp add: filter_has_location_def featured_dallas_def sample_event_def)

text \<open>
  Claim C5, amended. For \<^verbatim>\<open>is_curated=true\<close> the filter keeps the events that are
  staff-picked or featured and also carry the location flag; for \<^verbatim>\<open>is_curated=false\<close>
  it keeps the events that are not staff-picked, whatever their location flag; for
  \<^verbatim>\<open>has_location=true\<close> it keeps the events with the location flag, and for
  \<^verbatim>\<open>has_location=false\<close> it keeps everything.
\<close>

theorem filter_has_location_cases:
  "(e \<in> set (filter_has_location YES qs ''is_curated'' True) \<longleftrightarrow>
      e \<in> set qs \<and> (is_staff_picked e \<or> is_featured e) \<and> has_location e = YES)
   \<and> (e \<in> set (filter_has_location YES qs ''is_curated'' False) \<longleftrightarrow>
      e \<in> set qs \<and> \<not> is_staff_picked e)
   \<and> (e \<in> set (filter_has_location YES qs ''has_location'' True) \<longleftrightarrow>
      e \<in> set qs \<and> has_location e = YES)
   \<and> filter_has_location YES qs ''has_location'' False = qs"
  by (auto simp: filter_has_location_def)

section \<open>The when filter\<close>

lemma Q_holds_simps:
  "Q_holds None e = False"
  "Q_holds (Some p) e = p e"
  "Q_holds (Q_or q p) e = (Q_holds q e \<or> p e)"
  by (auto simp: Q_holds_def Q_or_def split: option.splits)

lemma Q_or_not_None: "(Q_or q p = None) = False"
  by (auto simp: Q_or_def split: option.splits)

lemma Q_step:
  "Q_holds (Q_or_if c q p) e = (Q_holds q e \<or> (c \<and> p e))"
  "Q_holds (if c then Some p else None) e = (c \<and> p e)"
  "(Q_or_if c q p = None) = (\<not> c \<and> q = None)"
  "((if c then Some p else None) = None) = (\<not> c)"
  by (auto simp: Q_holds_def Q_or_def Q_or_if_def split: option.splits)

lemma set_filter_Q:
  "q \<noteq> None \<Longrightarrow> set (filter_Q q qs) = {e \<in> set qs. Q_holds q e}"
  by (auto simp: filter_Q_def Q_holds_def split: option.splits)

lemma when_token_some:
  assumes "set v \<subseteq> set WHEN_CHOICES" "v \<noteq> []"
  shows "NOW \<in> set v \<or> TODAY \<in> set v \<or> TOMORROW \<in> set v \<or> WEEKEND \<in> set v \<or> NEXT_WEEK \<in> set v
       \<or> NEXT_WEEKEND \<in> set v \<or> THIS_WEEK \<in> set v \<or> HAPPENING_LATER \<in> set v \<or> PAST_EVENTS \<in> set v"
proof -
  from assms(2) obtain t where t: "t \<in> set v" by (cases v) auto
  with assms(1) have "t \<in> set WHEN_CHOICES" by blast
  with t show ?thesis by (auto simp: WHEN_CHOICES_def)
qed

lemma token_matches_ex:
  "set v \<subseteq> set WHEN_CHOICES \<Longrightarrow> (\<exists>t \<in> set v. token_matches U city now t e) \<longleftrightarrow>
     (NOW \<in> set v \<and> token_matches U city now NOW e)
   \<or> (TODAY \<in> set v \<and> token_matches U city now TODAY e)
   \<or> (TOMORROW \<in> set v \<and> token_matches U city now TOMORROW e)
   \<or> (WEEKEND \<in> set v \<and> token_matches U city now WEEKEND e)
   \<or> (NEXT_WEEK \<in> set v \<and> token_matches U city now NEXT_WEEK e)
   \<or> (NEXT_WEEKEND \<in> set v \<and> token_matches U city now NEXT_WEEKEND e)
   \<or> (THIS_WEEK \<in> set v \<and> token_matches U city now THIS_WEEK e)
   \<or> (HAPPENING_LATER \<in> set v \<and> token_matches U city now HAPPENING_LATER e)
   \<or> (PAST_EVENTS \<in> set v \<and> token_matches U city now PAST_EVENTS e)"
  (is "_ \<Longrightarrow> ?L = ?R")
proof
  assume sub: "set v \<subseteq> set WHEN_CHOICES" and "?L"
  then obtain t where t: "t \<in> set v" "token_matches U city now t e" by blast
  with sub have "t \<in> set WHEN_CHOICES" by blast
  then have "t = NOW \<or> t = TODAY \<or> t = TOMORROW \<or> t = WEEKEND \<or> t = NEXT_WEEK \<or> t = NEXT_WEEKEND
     \<or> t = THIS_WEEK \<or> t = HAPPENING_LATER \<or> t = PAST_EVENTS"
    by (auto simp: WHEN_CHOICES_def)
  with t show ?R by blast
next
  assume ?R then show ?L by blast
qed

lemma token_unfold:
  "token_matches U city now NOW e = (start_date e \<le> now \<and> now \<le> end_date e)"
  "token_matches U city now TODAY e =
     (day_start U city \<le> start_date e \<and> start_date e \<le> day_start U city + 86399 * second)"
  "token_matches U city now TOMORROW e =
     (day_start U city + 86400 * second \<le> start_date e
        \<and> start_date e \<le> day_start U city + 86400 * second + 86399 * second)"
  "token_matches U city now WEEKEND e =
     (fst (window_of U city (get_weekend U city)) \<le> start_date e
        \<and> start_date e \<le> snd (window_of U city (get_weekend U city)))"
  "token_matches U city now NEXT_WEEK e =
     (fst (window_of U city (get_next_week U city)) \<le> start_date e
        \<and> start_date e \<le> snd (window_of U city (get_next_week U city)))"
  "token_matches U city now NEXT_WEEKEND e =
     (fst (window_of U city (get_next_weekend U city)) \<le> start_date e
        \<and> start_date e \<le> snd (window_of U city (get_next_weekend U city)))"
  "token_matches U city now THIS_WEEK e =
     (fst (window_of U city (get_this_week U city)) \<le> start_date e
        \<and> start_date e \<le> snd (window_of U city (get_this_week U city)))"
  "token_matches U city now HAPPENING_LATER e =
     (snd (window_of U city (get_next_weekend U city)) \<le> start_date e)"
  "token_matches U city now PAST_EVENTS e = (end_date e \<le> now)"
  by (simp_all add: token_matches_def when_defs)

lemma timedelta_vals:
  "timedelta 0 23 59 59 = 86399 * second" "timedelta 1 0 0 0 = 86400 * second"
  by (simp_all add: timedelta_def)

lemma since_until_Q:
  "Q_holds (case process_since_and_until U since until city of
                   (Some s, Some u) \<Rightarrow> Q_or q (start_range s u)
                 | (None, Some u) \<Rightarrow> Q_or q (\<lambda>e. start_date e \<le> u)
                 | (Some s, None) \<Rightarrow> Q_or q (\<lambda>e. start_date e \<ge> s)
                 | (None, None) \<Rightarrow> q) e
   = (Q_holds q e \<or> since_until_matches U city since until e)"
  by (cases since; cases until)
     (auto simp: process_since_and_until_def since_until_matches_def Q_holds_simps start_range_def)

lemma since_until_None:
  "((case process_since_and_until U since until city of
                   (Some s, Some u) \<Rightarrow> Q_or q (start_range s u)
                 | (None, Some u) \<Rightarrow> Q_or q (\<lambda>e. start_date e \<le> u)
                 | (Some s, None) \<Rightarrow> Q_or q (\<lambda>e. start_date e \<ge> s)
                 | (None, None) \<Rightarrow> q) = None) = (q = None \<and> since = None \<and> until = None)"
  by (cases since; cases until)
     (auto simp: process_since_and_until_def Q_or_not_None)

text \<open>With a known city the filter is one \<^verbatim>\<open>Q\<close> object applied to the rows.\<close>

lemma filter_when_found:
  assumes city: "City_get db (Some (get_default GET ''city'' ''tampa-bay-florida-united-states'')) = Some city"
  shows "\<exists>q. filter_when U db now GET since until qs v = remdups (filter_Q q qs)
     \<and> (q = None \<longleftrightarrow> \<not> (NOW \<in> set v \<or> TODAY \<in> set v \<or> TOMORROW \<in> set v \<or> WEEKEND \<in> set v
           \<or> NEXT_WEEK \<in> set v \<or> NEXT_WEEKEND \<in> set v \<or> THIS_WEEK \<in> set v
           \<or> HAPPENING_LATER \<in> set v \<or> PAST_EVENTS \<in> set v) \<and> since = None \<and> until = None)
     \<and> (\<forall>e. Q_holds q e \<longleftrightarrow>
           (NOW \<in> set v \<and> token_matches U city now NOW e)
         \<or> (TODAY \<in> set v \<and> token_matches U city now TODAY e)
         \<or> (TOMORROW \<in> set v \<and> token_matches U city now TOMORROW e)
         \<or> (WEEKEND \<in> set v \<and> token_matches U city now WEEKEND e)
         \<or> (NEXT_WEEK \<in> set v \<and> token_matches U city now NEXT_WEEK e)
         \<or> (NEXT_WEEKEND \<in> set v \<and> token_matches U city now NEXT_WEEKEND e)
         \<or> (THIS_WEEK \<in> set v \<and> token_matches U city now THIS_WEEK e)
         \<or> (HAPPENING_LATER \<in> set v \<and> token_matches U city now HAPPENING_LATER e)
         \<or> (PAST_EVENTS \<in> set v \<and> token_matches U city now PAST_EVENTS e)
         \<or> since_until_matches U city since until e)"
  unfolding filter_when_def Let_def city option.case token_unfold
  apply (rule exI, intro conjI, rule refl)
   apply (simp only: since_until_None Q_step)
   apply blast
  apply (simp only: since_until_Q Q_step)
  apply (simp add: case_prod_beta start_range_def timedelta_vals day_start_def window_of_def)
  done

lemma filter_when_char:
  assumes city: "City_get db (Some (get_default GET ''city'' ''tampa-bay-florida-united-states'')) = Some city"
    and sub: "set v \<subseteq> set WHEN_CHOICES" and ne: "v \<noteq> []"
  shows "e \<in> set (filter_when U db now GET since until qs v) \<longleftrightarrow>
         e \<in> set qs \<and> ((\<exists>t\<in>set v. token_matches U city now t e)
                        \<or> since_until_matches U city since until e)"
proof -
  from filter_when_found[OF city, of U now since until qs v] obtain q where
    q: "filter_when U db now GET since until qs v = remdups (filter_Q q qs)"
    and qn: "q = None \<longleftrightarrow> \<not> (NOW \<in> set v \<or> TODAY \<in> set v \<or> TOMORROW \<in> set v \<or> WEEKEND \<in> set v
           \<or> NEXT_WEEK \<in> set v \<or> NEXT_WEEKEND \<in> set v \<or> THIS_WEEK \<in> set v
           \<or> HAPPENING_LATER \<in> set v \<or> PAST_EVENTS \<in> set v) \<and> since = None \<and> until = None"
    and qh: "Q_holds q e \<longleftrightarrow>
           ((NOW \<in> set v \<and> token_matches U city now NOW e)
         \<or> (TODAY \<in> set v \<and> token_matches U city now TODAY e)
         \<or> (TOMORROW \<in> set v \<and> token_matches U city now TOMORROW e)
         \<or> (WEEKEND \<in> set v \<and> token_matches U city now WEEKEND e)
         \<or> (NEXT_WEEK \<in> set v \<and> token_matches U city now NEXT_WEEK e)
         \<or> (NEXT_WEEKEND \<in> set v \<and> token_matches U city now NEXT_WEEKEND e)
         \<or> (THIS_WEEK \<in> set v \<and> token_matches U city now THIS_WEEK e)
         \<or> (HAPPENING_LATER \<in> set v \<and> token_matches U city now HAPPENING_LATER e)
         \<or> (PAST_EVENTS \<in> set v \<and> token_matches U city now PAST_EVENTS e))
         \<or> since_until_matches U city since until e"
    by (auto simp only: disj_assoc)
  from qn when_token_some[OF sub ne] have "q \<noteq> None" by blast
  then have "e \<in> set (filter_when U db now GET since until qs v) \<longleftrightarrow> e \<in> set qs \<and> Q_holds q e"
    by (simp add: q set_filter_Q)
  then show ?thesis
    unfolding qh token_matches_ex[OF sub, of U city now e] by simp
qed

lemma sample_city_austin:
  "City_get sample_db (Some (get_default [''city'' \<mapsto> ''austin-texas''] ''city''
       ''tampa-bay-florida-united-states'')) = Some austin"
  by (simp add: City_get_def get_default_def sample_defs)

text \<open>
  Claim C2, as stated, fails: the filter also lets through the events of the explicit
  \<^verbatim>\<open>since\<close>/\<^verbatim>\<open>until\<close> range. With the token \<^verbatim>\<open>today\<close> and a \<^verbatim>\<open>since\<close> of day 10, an
  event that starts on day 20 is kept although it matches no selected token.
\<close>

theorem when_union_counterexample:
  "sample_event\<lparr>start_date := 20 * 86400 * second\<rparr>
     \<in> set (filter_when sample_utils sample_db 0 [''city'' \<mapsto> ''austin-texas'']
              (Some (10 * 86400 * second)) None
              [sample_event\<lparr>start_date := 20 * 86400 * second\<rparr>] [TODAY])
   \<and> \<not> token_matches sample_utils austin 0 TODAY
         (sample_event\<lparr>start_date := 20 * 86400 * second\<rparr>)"
proof -
  let ?e = "sample_event\<lparr>start_date := 20 * 86400 * second\<rparr>"
  have sub: "set [TODAY] \<subseteq> set WHEN_CHOICES" by (simp add: WHEN_CHOICES_def)
  have su: "since_until_matches sample_utils austin (Some (10 * 86400 * second)) None ?e"
    by (simp add: since_until_matches_def sample_utils_def second_def)
  have nt: "\<not> token_matches sample_utils austin 0 TODAY ?e"
    by (simp add: token_unfold day_start_def sample_utils_def second_def)
  from filter_when_char[OF sample_city_austin sub, of ?e sample_utils 0
         "Some (10 * 86400 * second)" None "[?e]"] su
  have "?e \<in> set (filter_when sample_utils sample_db 0 [''city'' \<mapsto> ''austin-texas'']
              (Some (10 * 86400 * second)) None [?e] [TODAY])" by simp
  with nt show ?thesis by blast
qed

text \<open>
  Claim C2, amended. When the requested city (or, without one, the default city) exists
  and the selected tokens are a non-empty list of the nine choices, an event is kept iff
  it matches at least one selected token or the explicit \<^verbatim>\<open>since\<close>/\<^verbatim>\<open>until\<close> range;
  without such a range, iff it matches at least one selected token. The token predicates
  are those of the claim: \<^verbatim>\<open>now\<close> is start \<open>\<le>\<close> current instant \<open>\<le>\<close> end; \<^verbatim>\<open>today\<close> and
  \<^verbatim>\<open>tomorrow\<close> are the local day's window from its first instant to 23:59:59, both ends
  included; \<^verbatim>\<open>happening-later\<close> is start \<open>\<ge>\<close> the end of the next-weekend window;
  \<^verbatim>\<open>past\<close> is end \<open>\<le>\<close> current instant.
\<close>

theorem filter_when_union:
  assumes "City_get db (Some (get_default GET ''city'' ''tampa-bay-florida-united-states''))
             = Some city"
    and "set v \<subseteq> set WHEN_CHOICES" and "v \<noteq> []"
  shows "(e \<in> set (filter_when U db utc_now GET since until qs v) \<longleftrightarrow>
            e \<in> set qs \<and> ((\<exists>t\<in>set v. token_matches U city utc_now t e)
                           \<or> since_until_matches U city since until e))
       \<and> (e \<in> set (filter_when U db utc_now GET None None qs v) \<longleftrightarrow>
            e \<in> set qs \<and> (\<exists>t\<in>set v. token_matches U city utc_now t e))"
  using filter_when_char[OF assms, of e U utc_now since until qs]
    filter_when_char[OF assms, of e U utc_now None None qs]
  by (simp add: since_until_matches_def)

theorem filter_when_union_witness:
  "City_get sample_db (Some (get_default [''city'' \<mapsto> ''austin-texas''] ''city''
       ''tampa-bay-florida-united-states'')) = Some austin
   \<and> set [TODAY, PAST_EVENTS] \<subseteq> set WHEN_CHOICES \<and> [TODAY, PAST_EVENTS] \<noteq> []
   \<and> sample_event\<lparr>start_date := 86399 * second\<rparr>
       \<in> set (filter_when sample_utils sample_db 0 [''city'' \<mapsto> ''austin-texas''] None None
                [sample_event\<lparr>start_date := 86399 * second\<rparr>] [TODAY, PAST_EVENTS])
   \<and> sample_event\<lparr>start_date := 86399 * second + 1\<rparr>
       \<notin> set (filter_when sample_utils sample_db 0 [''city'' \<mapsto> ''austin-texas''] None None
                [sample_event\<lparr>start_date := 86399 * second + 1\<rparr>] [TODAY, PAST_EVENTS])"
proof -
  let ?a = "sample_event\<lparr>start_date := 86399 * second\<rparr>"
  let ?b = "sample_event\<lparr>start_date := 86399 * second + 1\<rparr>"
  let ?v = "[TODAY, PAST_EVENTS]"
  have sub: "set ?v \<subseteq> set WHEN_CHOICES" by (simp add: WHEN_CHOICES_def)
  have ne: "?v \<noteq> []" by simp
  have a: "\<exists>t\<in>set ?v. token_matches sample_utils austin 0 t ?a"
    by (simp add: token_unfold day_start_def sample_utils_def second_def)
  have b: "\<not> (\<exists>t\<in>set ?v. token_matches sample_utils austin 0 t ?b)"
    by (simp add: token_unfold day_start_def sample_utils_def sample_event_def second_def)
  have "?a \<in> set (filter_when sample_utils sample_db 0 [''city'' \<mapsto> ''austin-texas'']
                        None None [?a] ?v)
          \<longleftrightarrow> ?a \<in> set [?a] \<and> (\<exists>t\<in>set ?v. token_matches sample_utils austin 0 t ?a)"
    using filter_when_union[OF sample_city_austin sub ne, of ?a sample_utils 0 None None "[?a]"]
    by blast
  moreover have "?a \<in> set [?a]" by simp
  ultimately have ra: "?a \<in> set (filter_when sample_utils sample_db 0
                        [''city'' \<mapsto> ''austin-texas''] None None [?a] ?v)"
    using a by blast
  have "?b \<in> set (filter_when sample_utils sample_db 0 [''city'' \<mapsto> ''austin-texas'']
                        None None [?b] ?v)
          \<longleftrightarrow> ?b \<in> set [?b] \<and> (\<exists>t\<in>set ?v. token_matches sample_utils austin 0 t ?b)"
    using filter_when_union[OF sample_city_austin sub ne, of ?b sample_utils 0 None None "[?b]"]
    by blast
  with b have rb: "?b \<notin> set (filter_when sample_utils sample_db 0 [''city'' \<mapsto> ''austin-texas'']
                        None None [?b] ?v)" by blast
  from sample_city_austin sub ne ra rb show ?thesis by blast
qed

section \<open>Unknown cities\<close>

text \<open>
  Claim C3. When the city of the request (or the default city) does not exist, the when
  filter returns the queryset unchanged. In the radius filter, a city slug that is given
  but names no city, without both a longitude and a latitude, forces the empty result;
  with neither a city nor both coordinates the radius filter returns the queryset
  unchanged.
\<close>

theorem unknown_city_policies:
  "(City_get db (Some (get_default GET ''city'' ''tampa-bay-florida-united-states'')) = None
      \<longrightarrow> filter_when U db utc_now GET since until qs v = qs)
   \<and> (truthy (GET ''city'') \<and> City_get db (GET ''city'') = None
       \<and> \<not> (truthy (GET ''longitude'') \<and> truthy (GET ''latitude''))
      \<longrightarrow> filter_radius U db to_float GET qs r = Inr [])
   \<and> (\<not> truthy (GET ''city'') \<and> \<not> (truthy (GET ''longitude'') \<and> truthy (GET ''latitude''))
      \<longrightarrow> filter_radius U db to_float GET qs r = Inr qs)"
  by (auto simp: filter_when_def filter_radius_def radius_ref_point_def Let_def)

theorem unknown_city_policies_witness:
  "City_get sample_db (Some (get_default [''city'' \<mapsto> ''atlantis''] ''city''
      ''tampa-bay-florida-united-states'')) = None
   \<and> truthy ([''city'' \<mapsto> ''atlantis''] ''city'')
   \<and> City_get sample_db ([''city'' \<mapsto> ''atlantis''] ''city'') = None
   \<and> \<not> truthy ([''city'' \<mapsto> ''atlantis''] ''longitude'')
   \<and> \<not> truthy (Map.empty ''city'') \<and> \<not> truthy (Map.empty ''longitude'')
   \<and> filter_when sample_utils sample_db 0 [''city'' \<mapsto> ''atlantis''] None None
        [sample_event] [TODAY] = [sample_event]
   \<and> filter_radius sample_utils sample_db (\<lambda>s. None) [''city'' \<mapsto> ''atlantis'']
        [sample_event] FIVE_MILE = Inr []
   \<and> filter_radius sample_utils sample_db (\<lambda>s. None) Map.empty
        [sample_event] FIVE_MILE = Inr [sample_event]"
proof -
  let ?G = "[''city'' \<mapsto> ''atlantis'']"
  have h1: "City_get sample_db (Some (get_default ?G ''city''
      ''tampa-bay-florida-united-states'')) = None"
    by (simp add: City_get_def get_default_def sample_defs)
  have h2: "truthy (?G ''city'')" by (simp add: truthy_def)
  have h3: "City_get sample_db (?G ''city'') = None"
    by (simp add: City_get_def sample_defs)
  have h4: "\<not> truthy (?G ''longitude'')" by (simp add: truthy_def)
  have h5: "\<not> truthy ((Map.empty :: params) ''city'')"
    and h6: "\<not> truthy ((Map.empty :: params) ''longitude'')"
    by (simp_all add: truthy_def)
  note t1 = unknown_city_policies[of sample_db ?G sample_utils 0 None None "[sample_event]"
              "[TODAY]" "\<lambda>s. None" FIVE_MILE]
  note t2 = unknown_city_policies[of sample_db Map.empty sample_utils 0 None None
              "[sample_event]" "[TODAY]" "\<lambda>s. None" FIVE_MILE]
  from t1 h1 have r1: "filter_when sample_utils sample_db 0 ?G None None
        [sample_event] [TODAY] = [sample_event]" by blast
  from t1 h2 h3 h4 have r2: "filter_radius sample_utils sample_db (\<lambda>s. None) ?G
        [sample_event] FIVE_MILE = Inr []" by blast
  from t2 h5 h6 have r3: "filter_radius sample_utils sample_db (\<lambda>s. None) Map.empty
        [sample_event] FIVE_MILE = Inr [sample_event]" by blast
  from h1 h2 h3 h4 h5 h6 r1 r2 r3 show ?thesis by blast
qed

section \<open>The radius filter\<close>











section \<open>The radius filter in the city cluster\<close>

text \<open>
  Claim C6, as stated, fails: the inflation is not always strictly positive. Where the
  cluster sibling lies on the city's own point, the sibling's distance is 0, and the
  effective bound is the nominal one.
\<close>

theorem cluster_inflation_counterexample:
  "slug clearwater \<in> set (get_tampa sample_utils)
   \<and> tampa_siblings sample_utils
        (sample_db\<lparr>City_objects := [tampa, clearwater\<lparr>city_point := (1000000, 0)\<rparr>]\<rparr>)
        (clearwater\<lparr>city_point := (1000000, 0)\<rparr>) = [tampa]
   \<and> radius_ref_point sample_utils
        (sample_db\<lparr>City_objects := [tampa, clearwater\<lparr>city_point := (1000000, 0)\<rparr>]\<rparr>)
        (\<lambda>s. None) [''city'' \<mapsto> ''clearwater-florida-united-states'']
      = Inr (Some ((1000000, 0), Some 0))
   \<and> radius_distance FIVE_MILE = Some (5 * one_mile)
   \<and> \<not> (effective_distance (5 * one_mile) (Some 0) > 5 * one_mile)"
  by (simp add: radius_ref_point_def tampa_siblings_def City_get_def centroid_def
        effective_distance_def radius_distance_def sample_defs)

text \<open>
  The sibling the code takes is the first row of the unordered queryset. In the sample
  table the first sibling of St. Petersburg is Tampa, 30000 metres away, although
  Clearwater is 10000 metres away.
\<close>

lemma cluster_first_sibling_not_nearest:
  "tampa_siblings sample_utils sample_db st_petersburg = [tampa, clearwater]
   \<and> distance_m sample_db (city_point clearwater) (city_point st_petersburg) = 10000
   \<and> radius_ref_point sample_utils sample_db (\<lambda>s. None)
        [''city'' \<mapsto> ''st-petersburg-florida-united-states'']
      = Inr (Some ((1015000, 0), Some (30000 / 1.999)))"
  by (simp add: radius_ref_point_def tampa_siblings_def City_get_def centroid_def sample_defs)

lemma cluster_ref_point:
  assumes "City_get db (GET ''city'') = Some city"
    and "slug city \<in> set (get_tampa U)"
    and "tampa_siblings U db city = first # rest"
  shows "radius_ref_point U db to_float GET =
           Inr (Some (centroid (city_point first) (city_point city),
                      Some (distance_m db (city_point first) (city_point city) / 1.999)))"
  using assms by (simp add: radius_ref_point_def)

text \<open>
  Claim C6, amended. For a radius request whose city is a member of the cluster and whose
  first cluster sibling in the table's order is a nearest one (as it is when there is one
  sibling), the reference point is the centroid of the city's point and that sibling's
  point, and the effective bound is the nominal bound plus the sibling's distance divided
  by 1.999; it exceeds the nominal bound exactly when that distance is positive.
\<close>

theorem cluster_radius_inflation:
  assumes "truthy (GET ''city'')"
    and "City_get db (GET ''city'') = Some city"
    and "slug city \<in> set (get_tampa U)"
    and "tampa_siblings U db city = first # rest"
    and "\<forall>c \<in> set rest. distance_m db (city_point first) (city_point city)
                           \<le> distance_m db (city_point c) (city_point city)"
    and "radius_distance v = Some nominal"
  shows "radius_ref_point U db to_float GET =
           Inr (Some (centroid (city_point first) (city_point city),
                      Some (distance_m db (city_point first) (city_point city) / 1.999)))
       \<and> filter_radius U db to_float GET qs v =
           Inr (filter (dwithin db (centroid (city_point first) (city_point city))
                          (nominal + distance_m db (city_point first) (city_point city) / 1.999))
                  qs)
       \<and> (nominal < nominal + distance_m db (city_point first) (city_point city) / 1.999
            \<longleftrightarrow> 0 < distance_m db (city_point first) (city_point city))"
proof -
  note rp = cluster_ref_point[where GET = GET and to_float = to_float, OF assms(2,3,4)]
  have "filter_radius U db to_float GET qs v =
           Inr (filter (dwithin db (centroid (city_point first) (city_point city))
                          (nominal + distance_m db (city_point first) (city_point city) / 1.999))
                  qs)"
    using assms(1,6) by (simp add: filter_radius_def rp effective_distance_def)
  with rp show ?thesis by simp
qed

theorem cluster_radius_inflation_witness:
  "truthy ([''city'' \<mapsto> ''tampa-bay-florida-united-states''] ''city'')
   \<and> City_get sample_db ([''city'' \<mapsto> ''tampa-bay-florida-united-states''] ''city'') = Some tampa
   \<and> slug tampa \<in> set (get_tampa sample_utils)
   \<and> tampa_siblings sample_utils sample_db tampa = clearwater # [st_petersburg]
   \<and> distance_m sample_db (city_point clearwater) (city_point tampa)
        \<le> distance_m sample_db (city_point st_petersburg) (city_point tampa)
   \<and> radius_distance FIVE_MILE = Some 8045
   \<and> distance_m sample_db (city_point clearwater) (city_point tampa) = 20000
   \<and> centroid (city_point clearwater) (city_point tampa) = (1010000, 0)
   \<and> filter_radius sample_utils sample_db (\<lambda>s. None)
        [''city'' \<mapsto> ''tampa-bay-florida-united-states''] [sample_event] FIVE_MILE =
        Inr (filter (dwithin sample_db (1010000, 0) (8045 + 20000 / 1.999)) [sample_event])"
proof -
  let ?G = "[''city'' \<mapsto> ''tampa-bay-florida-united-states'']"
  have h1: "truthy (?G ''city'')" by (simp add: truthy_def)
  have h2: "City_get sample_db (?G ''city'') = Some tampa"
    by (simp add: City_get_def sample_defs)
  have h3: "slug tampa \<in> set (get_tampa sample_utils)" by (simp add: sample_defs)
  have h4: "tampa_siblings sample_utils sample_db tampa = clearwater # [st_petersburg]"
    by (simp add: tampa_siblings_def sample_defs)
  have h5: "\<forall>c \<in> set [st_petersburg].
              distance_m sample_db (city_point clearwater) (city_point tampa)
                \<le> distance_m sample_db (city_point c) (city_point tampa)"
    by (simp add: sample_defs)
  have h6: "radius_distance FIVE_MILE = Some 8045"
    by (simp add: radius_distance_def one_mile_def)
  have d: "distance_m sample_db (city_point clearwater) (city_point tampa) = 20000"
    by (simp add: sample_defs)
  have c: "centroid (city_point clearwater) (city_point tampa) = (1010000, 0)"
    by (simp add: centroid_def sample_defs)
  from cluster_radius_inflation[where GET = ?G and to_float = "\<lambda>s. None"
         and qs = "[sample_event]", OF h1 h2 h3 h4 h5 h6]
  have "filter_radius sample_utils sample_db (\<lambda>s. None) ?G [sample_event] FIVE_MILE =
        Inr (filter (dwithin sample_db (1010000, 0) (8045 + 20000 / 1.999)) [sample_event])"
    unfolding d c by blast
  moreover from h5 have "distance_m sample_db (city_point clearwater) (city_point tampa)
        \<le> distance_m sample_db (city_point st_petersburg) (city_point tampa)" by simp
  ultimately show ?thesis using h1 h2 h3 h4 h6 d c by blast
qed

section \<open>The curated-city policy in get\_queryset\<close>

lemma is_search_radius: "is_search (qp(''radius'' \<mapsto> r)) = is_search qp"
  by (simp add: is_search_def get_default_def)

lemma past_events_truthy: "(truthy w \<and> w = Some PAST_EVENTS) = (w = Some PAST_EVENTS)"
  by (auto simp: truthy_def PAST_EVENTS_def)

lemma set_curated_policy:
  "set (curated_policy U db city radius qs) =
     {e \<in> set qs.
        case get_nearest_curated_city U db city radius of
          None \<Rightarrow> \<not> exclusive e
        | Some [] \<Rightarrow> \<not> exclusive e
        | Some (first # rest) \<Rightarrow>
            \<not> (exclusive e
               \<and> located_in (filter (\<lambda>c. city_id c \<noteq> city_id first) (first # rest)) e)}"
  by (auto simp: curated_policy_def exclusive_def Let_def split: option.splits list.splits)

lemma EventViewSet_get_queryset_set:
  assumes "\<not> is_search qp" "\<not> truthy (qp ''what'')" "truthy (qp ''city'')"
    and "City_get db (qp ''city'') = Some city" "\<not> city_is_curated city"
  shows "set (EventViewSet_get_queryset U db utc_now qp) =
     {e \<in> viewable_events db qp.
        case get_nearest_curated_city U db city
               (Some (get_default qp ''radius'' HUNDRED_PLUS_MILE)) of
          None \<Rightarrow> \<not> exclusive e
        | Some [] \<Rightarrow> \<not> exclusive e
        | Some (first # rest) \<Rightarrow>
            \<not> (exclusive e
               \<and> located_in (filter (\<lambda>c. city_id c \<noteq> city_id first) (first # rest)) e)}"
  using assms
  by (simp add: EventViewSet_get_queryset_def Let_def is_search_radius past_events_truthy
        set_curated_policy viewable_events_def)

lemma MapViewSet_get_queryset_set:
  assumes "\<not> is_search qp" "truthy (qp ''city'')"
    and "City_get db (qp ''city'') = Some city" "\<not> city_is_curated city"
  shows "set (MapViewSet_get_queryset U db qp) =
     {e \<in> viewable_events db qp.
        case get_nearest_curated_city U db city (qp ''radius'') of
          None \<Rightarrow> \<not> exclusive e
        | Some [] \<Rightarrow> \<not> exclusive e
        | Some (first # rest) \<Rightarrow>
            \<not> (exclusive e
               \<and> located_in (filter (\<lambda>c. city_id c \<noteq> city_id first) (first # rest)) e)}"
  using assms
  by (simp add: MapViewSet_get_queryset_def Let_def past_events_truthy
        set_curated_policy viewable_events_def)

lemma sorted_head_least: "sorted (map f (x # xs)) \<Longrightarrow> y \<in> set xs \<Longrightarrow> f x \<le> f y"
  by auto

lemma resolver_nearest_first:
  assumes "curated_radius radius = Some miles" "curated_within db city miles \<noteq> []"
    and "get_nearest_curated_city U db city radius = Some (first # rest)" "c \<in> set rest"
  shows "distance_m db (city_point first) (city_point city)
           \<le> distance_m db (city_point c) (city_point city)"
proof -
  from assms(1,2,3) have eq: "curated_within db city miles = first # rest"
    by (simp add: get_nearest_curated_city_def Let_def)
  have "sorted (map (\<lambda>c. distance_m db (city_point c) (city_point city))
                  (curated_within db city miles))"
    by (simp add: curated_within_def Let_def)
  with eq assms(4) show ?thesis by auto
qed

lemma sample_resolver_5:
  "get_nearest_curated_city sample_utils sample_db austin (Some FIVE_MILE) = Some []"
  by (simp add: get_nearest_curated_city_def curated_within_def curated_radius_def radius_defs
        mile_m_def sample_defs)

lemma sample_resolver_25:
  "get_nearest_curated_city sample_utils sample_db austin (Some TWENTY_FIVE_MILE)
     = Some [dallas, houston]"
  by (simp add: get_nearest_curated_city_def curated_within_def curated_radius_def radius_defs
        mile_m_def sample_defs)

lemma sample_resolver_plus:
  "get_nearest_curated_city sample_utils sample_db austin (Some HUNDRED_PLUS_MILE)
     = Some [dallas, houston, tampa]"
  by (simp add: get_nearest_curated_city_def curated_within_def curated_radius_def radius_defs
        mile_m_def sample_defs)

lemma sample_viewable:
  "viewable_events sample_db qp = {sample_event, featured_dallas, featured_houston, picked_austin}"
  by (auto simp: viewable_events_def sample_db_def)

lemma sample_exclusive:
  "\<not> exclusive sample_event" "exclusive featured_dallas" "exclusive featured_houston"
  "exclusive picked_austin"
  by (simp_all add: exclusive_def sample_defs)

text \<open>
  Claim C1, as stated, fails for a search request: \<^verbatim>\<open>get_queryset\<close> returns the search
  result before it reaches the curation policy. For the uncurated city Austin with radius
  \<^verbatim>\<open>mile-5\<close> the resolver finds no candidate, yet the search for \<^verbatim>\<open>jazz\<close> returns a
  featured event.
\<close>

theorem curated_policy_counterexample:
  "City_get sample_db (Some ''austin-texas'') = Some austin \<and> \<not> city_is_curated austin
   \<and> get_nearest_curated_city sample_utils sample_db austin (Some FIVE_MILE) = Some []
   \<and> is_featured featured_dallas
   \<and> featured_dallas \<in> set (EventViewSet_get_queryset sample_utils sample_db 0
        [''city'' \<mapsto> ''austin-texas'', ''radius'' \<mapsto> ''mile-5'', ''search'' \<mapsto> ''jazz''])"
proof -
  have a: "City_get sample_db (Some ''austin-texas'') = Some austin \<and> \<not> city_is_curated austin"
    by (simp add: City_get_def sample_defs)
  have b: "is_featured featured_dallas" by (simp add: sample_defs)
  have c: "EventViewSet_get_queryset sample_utils sample_db 0
        [''city'' \<mapsto> ''austin-texas'', ''radius'' \<mapsto> ''mile-5'', ''search'' \<mapsto> ''jazz'']
        = [featured_dallas]"
    by (simp add: EventViewSet_get_queryset_def EventViewSet_search_events_def
          EventViewSet_filter_search_def search_base_def is_search_def get_default_def
          truthy_def istartswith_def upper_def upper_char_def Let_def PAST_EVENTS_def
          sample_defs)
  from a b c sample_resolver_5 show ?thesis by simp
qed

text \<open>
  Claim C1, amended. For every request that is not a search and has no \<^verbatim>\<open>what\<close>
  parameter, with a city slug naming an uncurated city: if the resolver returns no
  candidate (no list, or an empty one), the result is the viewable events that are neither
  featured nor staff-picked; if it returns a non-empty list, the result is the viewable
  events except the featured or staff-picked ones that have a location in a candidate
  city other than the first, so that every other event passes, among them the curated
  content of the first candidate alone and the curated content located in no candidate
  city. When the list comes from the search within the radius, its first city is a
  nearest one.
\<close>

theorem curated_policy_result:
  assumes "\<not> is_search qp" and "\<not> truthy (qp ''what'')" and "truthy (qp ''city'')"
    and "City_get db (qp ''city'') = Some city" and "\<not> city_is_curated city"
  shows "(get_nearest_curated_city U db city (Some (get_default qp ''radius'' HUNDRED_PLUS_MILE))
            \<in> {None, Some []}
          \<longrightarrow> set (EventViewSet_get_queryset U db utc_now qp)
                = {e \<in> viewable_events db qp. \<not> exclusive e})
       \<and> (\<forall>first rest.
            get_nearest_curated_city U db city (Some (get_default qp ''radius'' HUNDRED_PLUS_MILE))
              = Some (first # rest)
            \<longrightarrow> set (EventViewSet_get_queryset U db utc_now qp)
                  = {e \<in> viewable_events db qp.
                       \<not> (exclusive e
                          \<and> located_in (filter (\<lambda>c. city_id c \<noteq> city_id first) (first # rest)) e)})
       \<and> (\<forall>miles first rest c.
            curated_radius (Some (get_default qp ''radius'' HUNDRED_PLUS_MILE)) = Some miles
            \<and> curated_within db city miles \<noteq> []
            \<and> get_nearest_curated_city U db city (Some (get_default qp ''radius'' HUNDRED_PLUS_MILE))
                = Some (first # rest)
            \<and> c \<in> set rest
            \<longrightarrow> distance_m db (city_point first) (city_point city)
                  \<le> distance_m db (city_point c) (city_point city))"
proof (intro conjI allI impI)
  assume "get_nearest_curated_city U db city (Some (get_default qp ''radius'' HUNDRED_PLUS_MILE))
            \<in> {None, Some []}"
  then show "set (EventViewSet_get_queryset U db utc_now qp)
                = {e \<in> viewable_events db qp. \<not> exclusive e}"
    unfolding EventViewSet_get_queryset_set[OF assms] by auto
next
  fix first rest
  assume "get_nearest_curated_city U db city (Some (get_default qp ''radius'' HUNDRED_PLUS_MILE))
              = Some (first # rest)"
  then show "set (EventViewSet_get_queryset U db utc_now qp)
                  = {e \<in> viewable_events db qp.
                       \<not> (exclusive e
                          \<and> located_in (filter (\<lambda>c. city_id c \<noteq> city_id first) (first # rest)) e)}"
    unfolding EventViewSet_get_queryset_set[OF assms] by simp
next
  fix miles first rest c
  assume "curated_radius (Some (get_default qp ''radius'' HUNDRED_PLUS_MILE)) = Some miles
            \<and> curated_within db city miles \<noteq> []
            \<and> get_nearest_curated_city U db city (Some (get_default qp ''radius'' HUNDRED_PLUS_MILE))
                = Some (first # rest)
            \<and> c \<in> set rest"
  then show "distance_m db (city_point first) (city_point city)
                  \<le> distance_m db (city_point c) (city_point city)"
    using resolver_nearest_first by blast
qed

theorem curated_policy_result_witness:
  "\<not> is_search [''city'' \<mapsto> ''austin-texas'', ''radius'' \<mapsto> ''mile-25'']
   \<and> \<not> truthy ([''city'' \<mapsto> ''austin-texas'', ''radius'' \<mapsto> ''mile-25''] ''what'')
   \<and> truthy ([''city'' \<mapsto> ''austin-texas'', ''radius'' \<mapsto> ''mile-25''] ''city'')
   \<and> City_get sample_db ([''city'' \<mapsto> ''austin-texas'', ''radius'' \<mapsto> ''mile-25''] ''city'')
       = Some austin
   \<and> \<not> city_is_curated austin
   \<and> get_nearest_curated_city sample_utils sample_db austin (Some TWENTY_FIVE_MILE)
       = Some [dallas, houston]
   \<and> set (EventViewSet_get_queryset sample_utils sample_db 0
            [''city'' \<mapsto> ''austin-texas'', ''radius'' \<mapsto> ''mile-25''])
       = {sample_event, featured_dallas, picked_austin}
   \<and> set (EventViewSet_get_queryset sample_utils sample_db 0
            [''city'' \<mapsto> ''austin-texas'', ''radius'' \<mapsto> ''mile-5''])
       = {sample_event}"
proof -
  let ?q = "[''city'' \<mapsto> ''austin-texas'', ''radius'' \<mapsto> ''mile-25'']"
  let ?p = "[''city'' \<mapsto> ''austin-texas'', ''radius'' \<mapsto> ''mile-5'']"
  have q1: "\<not> is_search ?q" and p1: "\<not> is_search ?p"
    by (simp_all add: is_search_def get_default_def truthy_def)
  have q2: "\<not> truthy (?q ''what'')" and p2: "\<not> truthy (?p ''what'')"
    by (simp_all add: truthy_def)
  have q3: "truthy (?q ''city'')" and p3: "truthy (?p ''city'')"
    by (simp_all add: truthy_def)
  have q4: "City_get sample_db (?q ''city'') = Some austin"
    and p4: "City_get sample_db (?p ''city'') = Some austin"
    by (simp_all add: City_get_def sample_defs)
  have h5: "\<not> city_is_curated austin" by (simp add: austin_def)
  have rq: "get_default ?q ''radius'' HUNDRED_PLUS_MILE = TWENTY_FIVE_MILE"
    and rp: "get_default ?p ''radius'' HUNDRED_PLUS_MILE = FIVE_MILE"
    by (simp_all add: get_default_def radius_defs)
  have loc: "\<not> located_in [houston] sample_event" "\<not> located_in [houston] featured_dallas"
    "located_in [houston] featured_houston" "\<not> located_in [houston] picked_austin"
    by (simp_all add: located_in_def sample_defs)
  have oth: "filter (\<lambda>c. city_id c \<noteq> city_id dallas) [dallas, houston] = [houston]"
    by (simp add: sample_defs)
  have "set (EventViewSet_get_queryset sample_utils sample_db 0 ?q)
       = {e \<in> viewable_events sample_db ?q.
            \<not> (exclusive e
               \<and> located_in (filter (\<lambda>c. city_id c \<noteq> city_id dallas) [dallas, houston]) e)}"
    using curated_policy_result[OF q1 q2 q3 q4 h5, of sample_utils 0] sample_resolver_25
    unfolding rq by blast
  then have A: "set (EventViewSet_get_queryset sample_utils sample_db 0 ?q)
       = {sample_event, featured_dallas, picked_austin}"
    unfolding oth sample_viewable using loc sample_exclusive by auto
  have "set (EventViewSet_get_queryset sample_utils sample_db 0 ?p)
       = {e \<in> viewable_events sample_db ?p. \<not> exclusive e}"
    using curated_policy_result[OF p1 p2 p3 p4 h5, of sample_utils 0] sample_resolver_5
    unfolding rp by blast
  then have B: "set (EventViewSet_get_queryset sample_utils sample_db 0 ?p) = {sample_event}"
    unfolding sample_viewable using sample_exclusive by auto
  from q1 q2 q3 q4 h5 sample_resolver_25 A B show ?thesis by blast
qed

section \<open>Radius tokens the resolver does not know\<close>

lemma resolver_unknown_token:
  "radius \<notin> Some ` set resolver_tokens \<Longrightarrow> get_nearest_curated_city U db city radius = None"
  by (auto simp: get_nearest_curated_city_def curated_radius_def resolver_tokens_def)

lemma resolver_hundred_plus:
  "get_nearest_curated_city U db city (Some HUNDRED_PLUS_MILE) =
     Some (if curated_within db city 10000 = [] \<and> slug city \<in> set (get_tampa U)
           then filter (\<lambda>c. slug c = ''tampa-bay-florida-united-states'') (City_objects db)
           else curated_within db city 10000)"
  by (simp add: get_nearest_curated_city_def curated_radius_def radius_defs Let_def)

text \<open>
  Claim C10, as stated, fails for a missing radius parameter: \<^verbatim>\<open>EventViewSet.get_queryset\<close>
  replaces it by \<^verbatim>\<open>mile-100-plus\<close> before it calls the resolver. For the uncurated city
  Austin without a radius parameter, the featured event of the nearest curated city is
  in the result.
\<close>

theorem missing_radius_counterexample:
  "[''city'' \<mapsto> ''austin-texas''] ''radius'' = None
   \<and> City_get sample_db ([''city'' \<mapsto> ''austin-texas''] ''city'') = Some austin
   \<and> \<not> city_is_curated austin
   \<and> is_featured featured_dallas
   \<and> featured_dallas
       \<in> set (EventViewSet_get_queryset sample_utils sample_db 0 [''city'' \<mapsto> ''austin-texas''])"
proof -
  let ?q = "[''city'' \<mapsto> ''austin-texas'']"
  have q1: "\<not> is_search ?q" by (simp add: is_search_def get_default_def truthy_def)
  have q2: "\<not> truthy (?q ''what'')" by (simp add: truthy_def)
  have q3: "truthy (?q ''city'')" by (simp add: truthy_def)
  have q4: "City_get sample_db (?q ''city'') = Some austin" by (simp add: City_get_def sample_defs)
  have h5: "\<not> city_is_curated austin" by (simp add: austin_def)
  have r: "get_default ?q ''radius'' HUNDRED_PLUS_MILE = HUNDRED_PLUS_MILE"
    by (simp add: get_default_def)
  have loc: "\<not> located_in (filter (\<lambda>c. city_id c \<noteq> city_id dallas) [dallas, houston, tampa])
               featured_dallas"
    by (simp add: located_in_def sample_defs)
  have "featured_dallas \<in> set (EventViewSet_get_queryset sample_utils sample_db 0 ?q)"
    unfolding EventViewSet_get_queryset_set[OF q1 q2 q3 q4 h5] r sample_resolver_plus
    using loc by (simp add: sample_viewable)
  moreover have "is_featured featured_dallas" by (simp add: sample_defs)
  ultimately show ?thesis using q4 h5 by simp
qed

text \<open>
  Claim C10, amended. Called with anything but one of its five tokens (no radius at all
  included), the resolver returns no candidate list; for \<^verbatim>\<open>mile-100-plus\<close> it searches
  within 10000 miles. So for an uncurated city, in a request that is not a search and has
  no \<^verbatim>\<open>what\<close> parameter, \<^verbatim>\<open>EventViewSet.get_queryset\<close> excludes every featured or
  staff-picked event when the radius parameter is present and not one of the five tokens,
  and \<^verbatim>\<open>MapViewSet.get_queryset\<close> does so too when the radius parameter is missing.
\<close>

theorem resolver_unsupported_radius:
  "(radius \<notin> Some ` set resolver_tokens \<longrightarrow> get_nearest_curated_city U db city radius = None)
   \<and> curated_radius (Some HUNDRED_PLUS_MILE) = Some 10000
   \<and> get_nearest_curated_city U db city (Some HUNDRED_PLUS_MILE) =
       Some (if curated_within db city 10000 = [] \<and> slug city \<in> set (get_tampa U)
             then filter (\<lambda>c. slug c = ''tampa-bay-florida-united-states'') (City_objects db)
             else curated_within db city 10000)
   \<and> (\<not> is_search qp \<and> \<not> truthy (qp ''what'') \<and> truthy (qp ''city'')
       \<and> City_get db (qp ''city'') = Some city \<and> \<not> city_is_curated city
       \<and> qp ''radius'' \<noteq> None \<and> qp ''radius'' \<notin> Some ` set resolver_tokens
      \<longrightarrow> (\<forall>e \<in> set (EventViewSet_get_queryset U db utc_now qp).
             \<not> is_featured e \<and> \<not> is_staff_picked e))
   \<and> (\<not> is_search qp \<and> truthy (qp ''city'')
       \<and> City_get db (qp ''city'') = Some city \<and> \<not> city_is_curated city
       \<and> qp ''radius'' \<notin> Some ` set resolver_tokens
      \<longrightarrow> (\<forall>e \<in> set (MapViewSet_get_queryset U db qp).
             \<not> is_featured e \<and> \<not> is_staff_picked e))"
proof (intro conjI impI)
  show "get_nearest_curated_city U db city radius = None"
    if "radius \<notin> Some ` set resolver_tokens"
    using that by (rule resolver_unknown_token)
  show "curated_radius (Some HUNDRED_PLUS_MILE) = Some 10000"
    by (simp add: curated_radius_def radius_defs)
  show "get_nearest_curated_city U db city (Some HUNDRED_PLUS_MILE) =
       Some (if curated_within db city 10000 = [] \<and> slug city \<in> set (get_tampa U)
             then filter (\<lambda>c. slug c = ''tampa-bay-florida-united-states'') (City_objects db)
             else curated_within db city 10000)"
    by (rule resolver_hundred_plus)
next
  assume h: "\<not> is_search qp \<and> \<not> truthy (qp ''what'') \<and> truthy (qp ''city'')
       \<and> City_get db (qp ''city'') = Some city \<and> \<not> city_is_curated city
       \<and> qp ''radius'' \<noteq> None \<and> qp ''radius'' \<notin> Some ` set resolver_tokens"
  then obtain r where r: "qp ''radius'' = Some r" by auto
  then have d: "get_default qp ''radius'' HUNDRED_PLUS_MILE = r" by (simp add: get_default_def)
  from h r have "get_nearest_curated_city U db city (Some r) = None"
    by (simp add: resolver_unknown_token)
  with h d have "set (EventViewSet_get_queryset U db utc_now qp)
                  = {e \<in> viewable_events db qp. \<not> exclusive e}"
    by (simp add: EventViewSet_get_queryset_set)
  then show "\<forall>e \<in> set (EventViewSet_get_queryset U db utc_now qp).
             \<not> is_featured e \<and> \<not> is_staff_picked e"
    by (simp add: exclusive_def)
next
  assume h: "\<not> is_search qp \<and> truthy (qp ''city'')
       \<and> City_get db (qp ''city'') = Some city \<and> \<not> city_is_curated city
       \<and> qp ''radius'' \<notin> Some ` set resolver_tokens"
  then have "get_nearest_curated_city U db city (qp ''radius'') = None"
    by (simp add: resolver_unknown_token)
  with h have "set (MapViewSet_get_queryset U db qp)
                  = {e \<in> viewable_events db qp. \<not> exclusive e}"
    by (simp add: MapViewSet_get_queryset_set)
  then show "\<forall>e \<in> set (MapViewSet_get_queryset U db qp).
             \<not> is_featured e \<and> \<not> is_staff_picked e"
    by (simp add: exclusive_def)
qed

theorem resolver_unsupported_radius_witness:
  "Some ''mile-200'' \<notin> Some ` set resolver_tokens
   \<and> \<not> is_search [''city'' \<mapsto> ''austin-texas'', ''radius'' \<mapsto> ''mile-200'']
   \<and> \<not> truthy ([''city'' \<mapsto> ''austin-texas'', ''radius'' \<mapsto> ''mile-200''] ''what'')
   \<and> truthy ([''city'' \<mapsto> ''austin-texas'', ''radius'' \<mapsto> ''mile-200''] ''city'')
   \<and> City_get sample_db ([''city'' \<mapsto> ''austin-texas'', ''radius'' \<mapsto> ''mile-200''] ''city'')
       = Some austin
   \<and> \<not> city_is_curated austin
   \<and> [''city'' \<mapsto> ''austin-texas'', ''radius'' \<mapsto> ''mile-200''] ''radius'' \<noteq> None
   \<and> [''city'' \<mapsto> ''austin-texas'', ''radius'' \<mapsto> ''mile-200''] ''radius''
       \<notin> Some ` set resolver_tokens
   \<and> get_nearest_curated_city sample_utils sample_db austin (Some ''mile-200'') = None
   \<and> is_featured featured_dallas
   \<and> featured_dallas \<notin> set (EventViewSet_get_queryset sample_utils sample_db 0
                   [''city'' \<mapsto> ''austin-texas'', ''radius'' \<mapsto> ''mile-200''])
   \<and> featured_dallas \<notin> set (MapViewSet_get_queryset sample_utils sample_db
                   [''city'' \<mapsto> ''austin-texas'', ''radius'' \<mapsto> ''mile-200''])"
proof -
  let ?q = "[''city'' \<mapsto> ''austin-texas'', ''radius'' \<mapsto> ''mile-200'']"
  have t: "Some ''mile-200'' \<notin> Some ` set resolver_tokens"
    by (simp add: resolver_tokens_def radius_defs)
  have q1: "\<not> is_search ?q" by (simp add: is_search_def get_default_def truthy_def)
  have q2: "\<not> truthy (?q ''what'')" by (simp add: truthy_def)
  have q3: "truthy (?q ''city'')" by (simp add: truthy_def)
  have q4: "City_get sample_db (?q ''city'') = Some austin" by (simp add: City_get_def sample_defs)
  have h5: "\<not> city_is_curated austin" by (simp add: austin_def)
  have q6: "?q ''radius'' \<noteq> None" by simp
  have q7: "?q ''radius'' \<notin> Some ` set resolver_tokens" using t by simp
  note T = resolver_unsupported_radius[of "Some ''mile-200''" sample_utils sample_db austin ?q 0]
  from T t have a: "get_nearest_curated_city sample_utils sample_db austin (Some ''mile-200'') = None"
    by blast
  from T q1 q2 q3 q4 h5 q6 q7
  have b: "\<forall>e \<in> set (EventViewSet_get_queryset sample_utils sample_db 0 ?q).
         \<not> is_featured e \<and> \<not> is_staff_picked e" by blast
  from T q1 q3 q4 h5 q7
  have c: "\<forall>e \<in> set (MapViewSet_get_queryset sample_utils sample_db ?q).
         \<not> is_featured e \<and> \<not> is_staff_picked e" by blast
  have f: "is_featured featured_dallas" by (simp add: sample_defs)
  from b f have b': "featured_dallas \<notin> set (EventViewSet_get_queryset sample_utils sample_db 0 ?q)"
    by blast
  from c f have c': "featured_dallas \<notin> set (MapViewSet_get_queryset sample_utils sample_db ?q)"
    by blast
  from t q1 q2 q3 q4 h5 q6 q7 a f b' c' show ?thesis by blast
qed

section \<open>Text search\<close>

text \<open>
  The chain of \<^verbatim>\<open>EventViewSet.filter_search\<close>: the first non-empty result of the
  phrase-or-prefix match, the prefix match, the similarity match above 0.03 ordered by
  descending similarity, and otherwise the substring match; a query shorter than three
  characters gives the empty result.
\<close>

lemma event_search_chain:
  "EventViewSet_filter_search db qp qs =
     (let v = get_default qp ''search'' [];
          a = filter (\<lambda>e. search_phrase db v e \<or> istartswith (name e) v) qs;
          b = filter (\<lambda>e. istartswith (name e) v) qs;
          c = sort_key (\<lambda>e. - similarity db v e) (filter (\<lambda>e. 0.03 < similarity db v e) qs);
          d = filter (\<lambda>e. icontains (name e) v \<or> icontains (description e) v) qs
      in if length v < 3 then []
         else (case filter (\<lambda>r. r \<noteq> []) [a, b, c] of [] \<Rightarrow> d | r # _ \<Rightarrow> r))"
  by (simp add: EventViewSet_filter_search_def Let_def)

lemma sorted_neg_rev:
  fixes f :: "'a \<Rightarrow> real"
  shows "sorted (map (\<lambda>e. - f e) xs) \<Longrightarrow> sorted (rev (map f xs))"
  by (induction xs) (auto simp: sorted_append)

lemma event_search_similarity_order:
  "sorted (rev (map (similarity db v)
     (sort_key (\<lambda>e. - similarity db v e) (filter (\<lambda>e. 0.03 < similarity db v e) qs))))"
  by (rule sorted_neg_rev) simp

text \<open>
  Claim C7 holds for \<^verbatim>\<open>EventViewSet.filter_search\<close> but not for
  \<^verbatim>\<open>MapViewSet.filter_search\<close>, which has no similarity stage. For the query \<^verbatim>\<open>jazz\<close>
  and an event named \<^verbatim>\<open>Jaz festival\<close>, which matches neither as a phrase, nor as a
  prefix, nor as a substring, but has similarity one half: the event search returns the
  event, the map search returns nothing.
\<close>

theorem map_search_misses_similarity:
  "\<not> search_phrase sample_db ''jazz'' picked_austin
   \<and> \<not> istartswith (name picked_austin) ''jazz''
   \<and> similarity sample_db ''jazz'' picked_austin = 1 / 2
   \<and> EventViewSet_filter_search sample_db [''search'' \<mapsto> ''jazz''] [picked_austin]
       = [picked_austin]
   \<and> MapViewSet_filter_search sample_db [''search'' \<mapsto> ''jazz''] [picked_austin] = []"
  by (simp add: EventViewSet_filter_search_def MapViewSet_filter_search_def get_default_def
        similarity_def istartswith_def icontains_def upper_def upper_char_def Let_def
        sample_defs)

section \<open>The cache read path\<close>

lemma desktop_stale:
  assumes "\<not> truthy (qp ''cache_refresh'')" "desktop_cache db qp = cache # others"
    and "is_refresh_cache U cache"
  shows "desktop U db qp queue = (Response (response cache), queue @ [desktop_task qp])"
  using assms by (simp add: desktop_def)

lemma desktop_fresh:
  assumes "\<not> truthy (qp ''cache_refresh'')" "desktop_cache db qp = cache # others"
    and "\<not> is_refresh_cache U cache"
  shows "desktop U db qp queue = (Response (response cache), queue)"
  using assms by (simp add: desktop_def)

lemma desktop_requests_stale:
  assumes "\<not> truthy (qp ''cache_refresh'')" "desktop_cache db qp = cache # others"
    and "is_refresh_cache U cache"
  shows "desktop_requests U db (replicate n qp) queue =
           (replicate n (Response (response cache)), queue @ replicate n (desktop_task qp))"
proof (induction n arbitrary: queue)
  case 0
  show ?case by simp
next
  case (Suc n)
  show ?case
    by (simp add: desktop_stale[OF assms] Suc.IH replicate_append_same)
qed

lemma when_paginated_stale:
  assumes "paginate_queryset (when_buckets K buckets qp) = Some page"
    and "when_paginated_cache db K qp = cache # others" and "is_refresh_cache U cache"
  shows "when_paginated U db K buckets paginate_queryset qp queue =
           (Response (response cache),
            queue @ [when_paginated_task K (when_buckets K buckets qp) page qp])"
  using assms by (simp add: when_paginated_def)

lemma sample_desktop_cache:
  "desktop_cache sample_db [''city'' \<mapsto> ''austin-texas''] = sample_cache # []"
  by (simp add: desktop_cache_def sample_db_def sample_cache_def sample_when_cache_def)

lemma desktop_requests_fresh:
  assumes "\<not> truthy (qp ''cache_refresh'')" "desktop_cache db qp = cache # others"
    and "\<not> is_refresh_cache U cache"
  shows "desktop_requests U db (replicate n qp) queue =
           (replicate n (Response (response cache)), queue)"
  by (induction n arbitrary: queue) (simp_all add: desktop_fresh[OF assms])

lemma when_paginated_fresh:
  assumes "paginate_queryset (when_buckets K buckets qp) = Some page"
    and "when_paginated_cache db K qp = cache # others" and "\<not> is_refresh_cache U cache"
  shows "when_paginated U db K buckets paginate_queryset qp queue =
           (Response (response cache), queue)"
  using assms by (simp add: when_paginated_def)

lemma when_paginated_requests_stale:
  assumes "paginate_queryset (when_buckets K buckets qp) = Some page"
    and "when_paginated_cache db K qp = cache # others" and "is_refresh_cache U cache"
  shows "when_paginated_requests U db K buckets paginate_queryset (replicate n qp) queue =
           (replicate n (Response (response cache)),
            queue @ replicate n (when_paginated_task K (when_buckets K buckets qp) page qp))"
proof (induction n arbitrary: queue)
  case 0
  show ?case by simp
next
  case (Suc n)
  show ?case
    by (simp add: when_paginated_stale[where paginate_queryset = paginate_queryset, OF assms] Suc.IH replicate_append_same)
qed

lemma when_paginated_requests_fresh:
  assumes "paginate_queryset (when_buckets K buckets qp) = Some page"
    and "when_paginated_cache db K qp = cache # others" and "\<not> is_refresh_cache U cache"
  shows "when_paginated_requests U db K buckets paginate_queryset (replicate n qp) queue =
           (replicate n (Response (response cache)), queue)"
  by (induction n arbitrary: queue) (simp_all add: when_paginated_fresh[where paginate_queryset = paginate_queryset, OF assms])

lemma sample_when_buckets:
  "when_buckets sample_consts [sample_bucket] [''city'' \<mapsto> ''austin-texas''] = [sample_bucket]"
  by (simp add: when_buckets_def get_default_def lower_char_def sample_consts_def
        sample_bucket_def)

lemma sample_when_cache_hit:
  "when_paginated_cache sample_db sample_consts [''city'' \<mapsto> ''austin-texas'']
     = sample_when_cache # []"
  by (simp add: when_paginated_cache_def get_default_def sample_consts_def sample_db_def
        sample_cache_def sample_when_cache_def)

text \<open>
  Claim C9, as stated, fails: nothing on the read path remembers that a refresh of a key
  was dispatched. Two requests for the same stale key, the cache table unchanged between
  them, each get the stored payload and each dispatch a refresh: two tasks, not one.
\<close>

theorem stale_dispatch_counterexample:
  "is_refresh_cache sample_utils sample_cache
   \<and> desktop_requests sample_utils sample_db
        [[''city'' \<mapsto> ''austin-texas''], [''city'' \<mapsto> ''austin-texas'']] []
      = ([Response ''stored payload'', Response ''stored payload''],
         [cache_top_tab_city_page ''/v2/sections/desktop/'' None None None
            (Some ''austin-texas'') None,
          cache_top_tab_city_page ''/v2/sections/desktop/'' None None None
            (Some ''austin-texas'') None])"
  by (simp add: desktop_def sample_desktop_cache desktop_task_def truthy_def
        sample_utils_def sample_cache_def)

text \<open>
  Claim C9, amended. On the cache read path a stale hit returns the stored payload and
  dispatches one refresh for its key, and it does so for every request: \<open>n\<close> requests for
  a stale key, while the refresh job has not written, get the stored payload \<open>n\<close> times
  and dispatch \<open>n\<close> refreshes. A hit that is not stale returns the stored payload and
  dispatches nothing, for one request and for \<open>n\<close>. Both hold for
  \<^verbatim>\<open>SectionViewSet.desktop\<close> when the request has no \<^verbatim>\<open>cache_refresh\<close> parameter, and
  for \<^verbatim>\<open>EventViewSet.when_paginated\<close> when the buckets are paginated.
\<close>

theorem stale_read_dispatch:
  "(\<not> truthy (qp ''cache_refresh'') \<and> desktop_cache db qp = cache # others
      \<and> is_refresh_cache U cache
     \<longrightarrow> desktop_requests U db (replicate n qp) queue =
           (replicate n (Response (response cache)), queue @ replicate n (desktop_task qp)))
   \<and> (\<not> truthy (qp ''cache_refresh'') \<and> desktop_cache db qp = cache # others
      \<and> \<not> is_refresh_cache U cache
     \<longrightarrow> desktop U db qp queue = (Response (response cache), queue))
   \<and> (paginate_queryset (when_buckets K buckets qp) = Some page
      \<and> when_paginated_cache db K qp = cache # others \<and> is_refresh_cache U cache
     \<longrightarrow> when_paginated U db K buckets paginate_queryset qp queue =
           (Response (response cache),
            queue @ [when_paginated_task K (when_buckets K buckets qp) page qp]))
   \<and> (\<not> truthy (qp ''cache_refresh'') \<and> desktop_cache db qp = cache # others
      \<and> \<not> is_refresh_cache U cache
     \<longrightarrow> desktop_requests U db (replicate n qp) queue =
           (replicate n (Response (response cache)), queue))
   \<and> (paginate_queryset (when_buckets K buckets qp) = Some page
      \<and> when_paginated_cache db K qp = cache # others \<and> is_refresh_cache U cache
     \<longrightarrow> when_paginated_requests U db K buckets paginate_queryset (replicate n qp) queue =
           (replicate n (Response (response cache)),
            queue @ replicate n (when_paginated_task K (when_buckets K buckets qp) page qp)))
   \<and> (paginate_queryset (when_buckets K buckets qp) = Some page
      \<and> when_paginated_cache db K qp = cache # others \<and> \<not> is_refresh_cache U cache
     \<longrightarrow> when_paginated U db K buckets paginate_queryset qp queue =
           (Response (response cache), queue))
   \<and> (paginate_queryset (when_buckets K buckets qp) = Some page
      \<and> when_paginated_cache db K qp = cache # others \<and> \<not> is_refresh_cache U cache
     \<longrightarrow> when_paginated_requests U db K buckets paginate_queryset (replicate n qp) queue =
           (replicate n (Response (response cache)), queue))"
proof (intro conjI impI)
  assume "\<not> truthy (qp ''cache_refresh'') \<and> desktop_cache db qp = cache # others
      \<and> is_refresh_cache U cache"
  then show "desktop_requests U db (replicate n qp) queue =
           (replicate n (Response (response cache)), queue @ replicate n (desktop_task qp))"
    by (elim conjE) (rule desktop_requests_stale)
next
  assume "\<not> truthy (qp ''cache_refresh'') \<and> desktop_cache db qp = cache # others
      \<and> \<not> is_refresh_cache U cache"
  then show "desktop U db qp queue = (Response (response cache), queue)"
    by (elim conjE) (rule desktop_fresh)
next
  assume "paginate_queryset (when_buckets K buckets qp) = Some page
      \<and> when_paginated_cache db K qp = cache # others \<and> is_refresh_cache U cache"
  then show "when_paginated U db K buckets paginate_queryset qp queue =
           (Response (response cache),
            queue @ [when_paginated_task K (when_buckets K buckets qp) page qp])"
    by (elim conjE) (rule when_paginated_stale)
next
  assume "\<not> truthy (qp ''cache_refresh'') \<and> desktop_cache db qp = cache # others
      \<and> \<not> is_refresh_cache U cache"
  then show "desktop_requests U db (replicate n qp) queue =
           (replicate n (Response (response cache)), queue)"
    by (elim conjE) (rule desktop_requests_fresh)
next
  assume "paginate_queryset (when_buckets K buckets qp) = Some page
      \<and> when_paginated_cache db K qp = cache # others \<and> is_refresh_cache U cache"
  then show "when_paginated_requests U db K buckets paginate_queryset (replicate n qp) queue =
           (replicate n (Response (response cache)),
            queue @ replicate n (when_paginated_task K (when_buckets K buckets qp) page qp))"
    by (elim conjE) (rule when_paginated_requests_stale)
next
  assume "paginate_queryset (when_buckets K buckets qp) = Some page
      \<and> when_paginated_cache db K qp = cache # others \<and> \<not> is_refresh_cache U cache"
  then show "when_paginated U db K buckets paginate_queryset qp queue =
           (Response (response cache), queue)"
    by (elim conjE) (rule when_paginated_fresh)
next
  assume "paginate_queryset (when_buckets K buckets qp) = Some page
      \<and> when_paginated_cache db K qp = cache # others \<and> \<not> is_refresh_cache U cache"
  then show "when_paginated_requests U db K buckets paginate_queryset (replicate n qp) queue =
           (replicate n (Response (response cache)), queue)"
    by (elim conjE) (rule when_paginated_requests_fresh)
qed

theorem stale_read_dispatch_witness:
  "\<not> truthy ([''city'' \<mapsto> ''austin-texas''] ''cache_refresh'')
   \<and> desktop_cache sample_db [''city'' \<mapsto> ''austin-texas''] = sample_cache # []
   \<and> Some (when_buckets sample_consts [sample_bucket] [''city'' \<mapsto> ''austin-texas''])
       = Some [sample_bucket]
   \<and> when_paginated_cache sample_db sample_consts [''city'' \<mapsto> ''austin-texas'']
       = sample_when_cache # []
   \<and> is_refresh_cache sample_utils sample_cache
   \<and> is_refresh_cache sample_utils sample_when_cache
   \<and> \<not> is_refresh_cache (sample_utils\<lparr>is_refresh_cache := \<lambda>c. False\<rparr>) sample_cache
   \<and> \<not> is_refresh_cache (sample_utils\<lparr>is_refresh_cache := \<lambda>c. False\<rparr>) sample_when_cache
   \<and> desktop_requests sample_utils sample_db (replicate 3 [''city'' \<mapsto> ''austin-texas'']) [] =
       (replicate 3 (Response (response sample_cache)),
        [] @ replicate 3 (desktop_task [''city'' \<mapsto> ''austin-texas'']))
   \<and> desktop_requests (sample_utils\<lparr>is_refresh_cache := \<lambda>c. False\<rparr>) sample_db
        (replicate 3 [''city'' \<mapsto> ''austin-texas'']) [] =
       (replicate 3 (Response (response sample_cache)), [])
   \<and> when_paginated_requests sample_utils sample_db sample_consts [sample_bucket] Some
        (replicate 2 [''city'' \<mapsto> ''austin-texas'']) [] =
       (replicate 2 (Response (response sample_when_cache)),
        [] @ replicate 2 (when_paginated_task sample_consts
                (when_buckets sample_consts [sample_bucket] [''city'' \<mapsto> ''austin-texas''])
                [sample_bucket] [''city'' \<mapsto> ''austin-texas'']))
   \<and> when_paginated_requests (sample_utils\<lparr>is_refresh_cache := \<lambda>c. False\<rparr>) sample_db
        sample_consts [sample_bucket] Some (replicate 2 [''city'' \<mapsto> ''austin-texas'']) [] =
       (replicate 2 (Response (response sample_when_cache)), [])"
proof -
  let ?q = "[''city'' \<mapsto> ''austin-texas'']"
  let ?F = "sample_utils\<lparr>is_refresh_cache := \<lambda>c. False\<rparr>"
  have h1: "\<not> truthy (?q ''cache_refresh'')" by (simp add: truthy_def)
  have h2: "Some (when_buckets sample_consts [sample_bucket] ?q) = Some [sample_bucket]"
    by (simp add: sample_when_buckets)
  have s1: "is_refresh_cache sample_utils sample_cache"
    and s2: "is_refresh_cache sample_utils sample_when_cache"
    by (simp_all add: sample_utils_def)
  have f1: "\<not> is_refresh_cache ?F sample_cache"
    and f2: "\<not> is_refresh_cache ?F sample_when_cache"
    by simp_all
  note D = stale_read_dispatch[where qp = ?q and db = sample_db and cache = sample_cache
             and others = "[]" and n = 3 and queue = "[]" and K = sample_consts
             and buckets = "[sample_bucket]" and page = "[sample_bucket]"]
  note W = stale_read_dispatch[where qp = ?q and db = sample_db and cache = sample_when_cache
             and others = "[]" and n = 2 and queue = "[]" and K = sample_consts
             and buckets = "[sample_bucket]" and page = "[sample_bucket]"
             and paginate_queryset = Some]
  from D[where U = sample_utils and paginate_queryset = Some] h1 sample_desktop_cache s1
  have a: "desktop_requests sample_utils sample_db (replicate 3 ?q) [] =
       (replicate 3 (Response (response sample_cache)), [] @ replicate 3 (desktop_task ?q))"
    by blast
  from D[where U = ?F and paginate_queryset = Some] h1 sample_desktop_cache f1
  have b: "desktop_requests ?F sample_db (replicate 3 ?q) [] =
       (replicate 3 (Response (response sample_cache)), [])"
    by blast
  from W[where U = sample_utils] h2 sample_when_cache_hit s2
  have c: "when_paginated_requests sample_utils sample_db sample_consts [sample_bucket] Some
        (replicate 2 ?q) [] =
       (replicate 2 (Response (response sample_when_cache)),
        [] @ replicate 2 (when_paginated_task sample_consts
                (when_buckets sample_consts [sample_bucket] ?q) [sample_bucket] ?q))"
    by blast
  from W[where U = ?F] h2 sample_when_cache_hit f2
  have d: "when_paginated_requests ?F sample_db sample_consts [sample_bucket] Some
        (replicate 2 ?q) [] =
       (replicate 2 (Response (response sample_when_cache)), [])"
    by blast
  from h1 sample_desktop_cache h2 sample_when_cache_hit s1 s2 f1 f2 a b c d
  show ?thesis by blast
qed

end
